theory Spec2Isabelle
  imports Complex_Main "HOL-Library.Word"
begin

section \<open>Values\<close>

text \<open>
  The service moves JSON around: third-party response bodies, the token store, the
  \<open>preferences\<close> column of a user. A JSON value is what \<open>response.json()\<close> and the
  JSON column give to Python: \<open>None\<close>, \<open>bool\<close>, \<open>int\<close>, \<open>float\<close>, \<open>str\<close>, \<open>list\<close>
  and \<open>dict\<close> with string keys. A float is only ever passed through; it is carried as
  its IEEE-754 bit pattern. A Python \<open>str\<close> is carried as its UTF-8
  bytes, so a code point beyond ASCII takes two to four \<open>char\<close>s. A dictionary is an
  association list in insertion order; lookups take the first entry of a key.
\<close>

datatype json =
    JNull
  | JBool bool
  | JInt int
  | JFloat "64 word"
  | JStr string
  | JList "json list"
  | JDict "(string \<times> json) list"

text \<open>
  A view function also handles \<open>Response\<close> objects of the REST framework (payload and
  HTTP status). The helpers of \<open>views.py\<close> return them in place of data, so they can end
  up inside the lists and dicts the views build. \<open>Json\<close> embeds plain JSON data;
  \<open>PyList\<close> and \<open>PyDict\<close> are the containers built by the views themselves.
\<close>

datatype pyval =
    Json json
  | Response pyval int
  | PyList "pyval list"
  | PyDict "(string \<times> pyval) list"

datatype py_error =
    KeyError
  | IndexError
  | TypeError
  | AttributeError
  | JSONDecodeError
  | RequestException
  | DoesNotExist
  | DatabaseError

definition HTTP_200_OK :: int where "HTTP_200_OK = 200"
definition HTTP_400_BAD_REQUEST :: int where "HTTP_400_BAD_REQUEST = 400"
definition HTTP_408_REQUEST_TIMEOUT :: int where "HTTP_408_REQUEST_TIMEOUT = 408"

subsection \<open>Code points\<close>

text \<open>
  Python indexes and iterates a \<open>str\<close> by code point. In UTF-8 the first byte of a
  code point tells how many bytes it takes.
\<close>

definition utf8_width :: "char \<Rightarrow> nat" where
  "utf8_width c =
     (if of_char c < (0x80::nat) then 1
      else if of_char c < (0xE0::nat) then 2
      else if of_char c < (0xF0::nat) then 3
      else 4)"

fun code_points :: "string \<Rightarrow> string list" where
  "code_points [] = []"
| "code_points (c # cs) =
     (c # take (utf8_width c - 1) cs) # code_points (drop (utf8_width c - 1) cs)"

subsection \<open>Python's subscripting, iteration and \<open>append\<close>\<close>

text \<open>\<open>v[key]\<close> with a string key: only a dict can answer; a missing key is a KeyError.\<close>

fun getitem :: "json \<Rightarrow> string \<Rightarrow> py_error + json" where
  "getitem (JDict kvs) key = (case map_of kvs key of None \<Rightarrow> Inl KeyError | Some v \<Rightarrow> Inr v)"
| "getitem _ key = Inl TypeError"

text \<open>
  \<open>v[0]\<close>: the first element of a list, the first character of a string; a dict with
  string keys has no key \<open>0\<close>.
\<close>

fun getfirst :: "json \<Rightarrow> py_error + json" where
  "getfirst (JList []) = Inl IndexError"
| "getfirst (JList (x # xs)) = Inr x"
| "getfirst (JStr s) = (case code_points s of [] \<Rightarrow> Inl IndexError | p # ps \<Rightarrow> Inr (JStr p))"
| "getfirst (JDict kvs) = Inl KeyError"
| "getfirst _ = Inl TypeError"

text \<open>\<open>d.get(key)\<close>: \<open>None\<close> for a missing key; only a dict has the method.\<close>

fun dict_get :: "json \<Rightarrow> string \<Rightarrow> py_error + json" where
  "dict_get (JDict kvs) key = (case map_of kvs key of None \<Rightarrow> Inr JNull | Some v \<Rightarrow> Inr v)"
| "dict_get _ key = Inl AttributeError"

text \<open>\<open>for x in v\<close>: the elements of a list, the keys of a dict, the characters of a string.\<close>

fun iterate :: "json \<Rightarrow> py_error + json list" where
  "iterate (JList xs) = Inr xs"
| "iterate (JDict kvs) = Inr (map (\<lambda>kv. JStr (fst kv)) kvs)"
| "iterate (JStr s) = Inr (map JStr (code_points s))"
| "iterate _ = Inl TypeError"

text \<open>An exception ends the computation: the first \<open>Inl\<close> is the result.\<close>

definition bind_err :: "'e + 'a \<Rightarrow> ('a \<Rightarrow> 'e + 'b) \<Rightarrow> 'e + 'b" where
  "bind_err m f = (case m of Inl e \<Rightarrow> Inl e | Inr x \<Rightarrow> f x)"

text \<open>A list comprehension evaluates its element expression item by item, in order.\<close>

fun comprehension :: "('a \<Rightarrow> 'e + 'b) \<Rightarrow> 'a list \<Rightarrow> 'e + 'b list" where
  "comprehension f [] = Inr []"
| "comprehension f (x # xs) =
     bind_err (f x) (\<lambda>y. bind_err (comprehension f xs) (\<lambda>ys. Inr (y # ys)))"

text \<open>\<open>v.append(x)\<close>: only a list has the method.\<close>

fun list_append :: "pyval \<Rightarrow> pyval \<Rightarrow> py_error + pyval" where
  "list_append (Json (JList xs)) x = Inr (PyList (map Json xs @ [x]))"
| "list_append (PyList xs) x = Inr (PyList (xs @ [x]))"
| "list_append _ x = Inl AttributeError"

text \<open>
  \<open>json.dumps\<close>, as the JSON column runs it when a row is saved: a \<open>Response\<close> object
  anywhere in the value is not serializable (\<open>None\<close> here, a TypeError in \<open>save\<close>).
\<close>

fun dumps :: "pyval \<Rightarrow> json option"
  and dumps_list :: "pyval list \<Rightarrow> json list option"
  and dumps_items :: "(string \<times> pyval) list \<Rightarrow> (string \<times> json) list option" where
  "dumps (Json j) = Some j"
| "dumps (Response d s) = None"
| "dumps (PyList xs) = map_option JList (dumps_list xs)"
| "dumps (PyDict kvs) = map_option JDict (dumps_items kvs)"
| "dumps_list [] = Some []"
| "dumps_list (x # xs) =
     (case dumps x of None \<Rightarrow> None
      | Some y \<Rightarrow> map_option (\<lambda>ys. y # ys) (dumps_list xs))"
| "dumps_items [] = Some []"
| "dumps_items (kv # kvs) =
     (case dumps (snd kv) of None \<Rightarrow> None
      | Some y \<Rightarrow> map_option (\<lambda>ys. (fst kv, y) # ys) (dumps_items kvs))"

text \<open>
  \<open>json.dumps\<close> writes a float that is infinite or not a number as \<open>Infinity\<close> or
  \<open>NaN\<close>, which is not JSON: the database refuses such a text. A double is finite when
  its eleven exponent bits are not all set.
\<close>

definition finite_double :: "64 word \<Rightarrow> bool" where
  "finite_double x = (take_bit 11 (drop_bit 52 x) \<noteq> (0x7FF :: 64 word))"

fun finite_json :: "json \<Rightarrow> bool"
  and finite_jsons :: "json list \<Rightarrow> bool"
  and finite_items :: "(string \<times> json) list \<Rightarrow> bool" where
  "finite_json (JFloat x) = finite_double x"
| "finite_json (JList xs) = finite_jsons xs"
| "finite_json (JDict kvs) = finite_items kvs"
| "finite_json JNull = True"
| "finite_json (JBool b) = True"
| "finite_json (JInt i) = True"
| "finite_json (JStr s) = True"
| "finite_jsons [] = True"
| "finite_jsons (x # xs) = (finite_json x \<and> finite_jsons xs)"
| "finite_items [] = True"
| "finite_items (kv # kvs) = (finite_json (snd kv) \<and> finite_items kvs)"

section \<open>The data model (\<open>models.py\<close>)\<close>

text \<open>
  A row of the \<open>User\<close> table. The JSON column \<open>preferences\<close> is declared
  \<open>null=True, blank=True, default=list\<close>: it holds any JSON value, \<open>None\<close> included,
  and a user created without a value for it gets a fresh empty list.
\<close>

record User =
  name :: string
  email :: string
  preferences :: json

definition User_init :: "string \<Rightarrow> string \<Rightarrow> json option \<Rightarrow> User" where
  "User_init n e p =
     \<lparr>name = n, email = e, preferences = (case p of None \<Rightarrow> JList [] | Some v \<Rightarrow> v)\<rparr>"

section \<open>Configuration, process state and the outside world (\<open>views.py\<close>)\<close>

text \<open>
  The module reads its settings from the environment once, on import; \<open>os.getenv\<close> gives
  \<open>None\<close> for an unset variable, and only the redirect URI has a default.
\<close>

record config =
  SPOTIFY_CLIENT_ID :: "string option"
  SPOTIFY_CLIENT_SECRET :: "string option"
  SPOTIFY_REDIRECT_URI :: string

definition load_config :: "(string \<Rightarrow> string option) \<Rightarrow> config" where
  "load_config getenv =
     \<lparr>SPOTIFY_CLIENT_ID = getenv ''SPOTIFY_CLIENT_ID'',
      SPOTIFY_CLIENT_SECRET = getenv ''SPOTIFY_CLIENT_SECRET'',
      SPOTIFY_REDIRECT_URI =
        (case getenv ''SPOTIFY_REDIRECT_URI'' of
           None \<Rightarrow> ''http://127.0.0.1:8000/api/callback/''
         | Some v \<Rightarrow> v)\<rparr>"

definition SPOTIFY_AUTH_URL :: string where
  "SPOTIFY_AUTH_URL = ''https://accounts.spotify.com/authorize''"

definition SPOTIFY_TOKEN_URL :: string where
  "SPOTIFY_TOKEN_URL = ''https://accounts.spotify.com/api/token''"

definition SPOTIFY_API_URL :: string where
  "SPOTIFY_API_URL = ''https://api.spotify.com/v1/me/top/artists''"

definition SCOPE :: string where
  "SCOPE = ''user-top-read''"

text \<open>An f-string renders \<open>None\<close> as the text \<open>None\<close> and a string as itself.\<close>

fun fstr :: "string option \<Rightarrow> string" where
  "fstr None = ''None''"
| "fstr (Some s) = s"

text \<open>
  Requests sent with the \<open>requests\<close> library. A POST carries its headers and its form
  fields. A GET carries the value that the f-string \<open>Bearer {access_token}\<close> formats
  into the Authorization header (kept as the value, not as its text) and the query
  parameters.
\<close>

datatype http_request =
    Post string "(string \<times> string) list" "(string \<times> string option) list"
  | Get string pyval "(string \<times> json) list"

text \<open>
  What comes back: the status code and the body as \<open>response.json()\<close> reads it
  (\<open>None\<close> when the body is not JSON, where \<open>json()\<close> raises).
\<close>

record http_response =
  status_code :: int
  json_body :: "json option"

definition response_json :: "http_response \<Rightarrow> py_error + json" where
  "response_json r = (case json_body r of None \<Rightarrow> Inl JSONDecodeError | Some j \<Rightarrow> Inr j)"

text \<open>
  The third party is a function from the request to what \<open>requests\<close> does with it:
  an exception (no connection, for one) or a response.
\<close>

type_synonym remote = "http_request \<Rightarrow> py_error + http_response"

text \<open>What a function does to the outside, in the order it does it.\<close>

datatype effect =
    Http http_request
  | BrowserOpen "string option"
  | Sleep nat

text \<open>
  The state of the process: the module-level variable \<open>spotify_tokens\<close> (a dict, empty
  at start) and the \<open>User\<close> table, by primary key.
\<close>

record world =
  spotify_tokens :: "(string \<times> json) list"
  users :: "nat \<Rightarrow> User option"

section \<open>\<open>spotify_auth\<close>\<close>

definition spotify_auth :: "config \<Rightarrow> (string \<times> string) list" where
  "spotify_auth cfg =
     (let auth_url =
        SPOTIFY_AUTH_URL @ ''?'' @
        ''response_type=code&client_id='' @ fstr (SPOTIFY_CLIENT_ID cfg) @
        ''&redirect_uri='' @ SPOTIFY_REDIRECT_URI cfg @
        ''&scope='' @ SCOPE
      in [(''auth_url'', auth_url)])"

section \<open>\<open>callback\<close>\<close>

text \<open>
  The request of the token exchange; \<open>code\<close> is \<open>request.GET.get("code")\<close>, \<open>None\<close>
  when the query has no such parameter.
\<close>

definition token_request :: "config \<Rightarrow> string option \<Rightarrow> http_request" where
  "token_request cfg code =
     Post SPOTIFY_TOKEN_URL
       [(''Content-Type'', ''application/x-www-form-urlencoded'')]
       [(''grant_type'', Some ''authorization_code''),
        (''code'', code),
        (''redirect_uri'', Some (SPOTIFY_REDIRECT_URI cfg)),
        (''client_id'', SPOTIFY_CLIENT_ID cfg),
        (''client_secret'', SPOTIFY_CLIENT_SECRET cfg)]"

text \<open>The dict literal assigned to \<open>spotify_tokens\<close>, its three values read in order.\<close>

definition token_entry :: "json \<Rightarrow> py_error + (string \<times> json) list" where
  "token_entry token_data =
     bind_err (getitem token_data ''access_token'') (\<lambda>a.
     bind_err (dict_get token_data ''refresh_token'') (\<lambda>r.
     bind_err (getitem token_data ''expires_in'') (\<lambda>e.
       Inr [(''access_token'', a), (''refresh_token'', r), (''expires_in'', e)])))"

definition callback ::
  "config \<Rightarrow> remote \<Rightarrow> string option \<Rightarrow> world \<Rightarrow> (py_error + pyval) \<times> world \<times> effect list" where
  "callback cfg http code w =
     (let req = token_request cfg code in
      case http req of
        Inl e \<Rightarrow> (Inl e, w, [Http req])
      | Inr response \<Rightarrow>
          if status_code response = 200 then
            (case bind_err (response_json response) token_entry of
               Inl e \<Rightarrow> (Inl e, w, [Http req])
             | Inr tokens \<Rightarrow>
                 (Inr (Response (Json (JDict tokens)) HTTP_200_OK),
                  w\<lparr>spotify_tokens := tokens\<rparr>, [Http req]))
          else
            (Inr (Response
                    (Json (JDict [(''error'', JStr ''Error al obtener el token de acceso.'')]))
                    HTTP_400_BAD_REQUEST),
             w, [Http req]))"

section \<open>\<open>get_spotify_token\<close>\<close>

text \<open>
  While a view waits, other threads of the server handle the callback requests that
  come in. A callback replaces the token store in one assignment, so what matters is
  between which two steps of the waiting view it runs: before the first test of the
  store (while the browser is being opened), between test number \<open>k\<close> of the store and
  the test of the clock that follows it, or during the sleep that follows check \<open>k\<close>.
\<close>

datatype slot =
    Opening
  | Testing nat
  | Sleeping nat

text \<open>
  What surrounds one call of a view: the third party; the readings of \<open>time.time()\<close>
  in the order they are taken (reading \<open>0\<close> is \<open>start_time\<close>, reading \<open>Suc k\<close> is
  taken at check \<open>k\<close>); the rounding of floating-point arithmetic, which the float
  subtraction \<open>time.time() - start_time\<close> applies to the exact difference; and the
  callback requests that arrive in each slot, each with the \<open>code\<close> of the request
  and what the third party answers it. Callbacks that arrive after the store was found
  populated, and requests of other threads that write the \<open>User\<close> table, are outside
  this description.
\<close>

record env =
  requests :: remote
  clock :: "nat \<Rightarrow> real"
  rounded :: "real \<Rightarrow> real"
  arrivals :: "slot \<Rightarrow> (string option \<times> remote) list"

definition deliver :: "config \<Rightarrow> (string option \<times> remote) list \<Rightarrow> world \<Rightarrow> world" where
  "deliver cfg cs w = fold (\<lambda>c v. fst (snd (callback cfg (snd c) (fst c) v))) cs w"

text \<open>
  The message of line 127 spells its accented letter as \<open>o\<close> followed by the combining
  acute accent U+0301, in UTF-8 the bytes CC 81.
\<close>

definition timeout_response :: pyval where
  "timeout_response =
     Response
       (Json (JDict [(''error'',
          JStr (''Se agoto'' @ [CHR 0xCC, CHR 0x81] @
                '' el tiempo de espera. No se pudo obtener el token de acceso.''))]))
       HTTP_408_REQUEST_TIMEOUT"

text \<open>
  The \<open>while not spotify_tokens\<close> loop, check number \<open>k\<close>. The loop has no bound of
  its own, so the model counts its rounds down from \<open>fuel\<close>: \<open>None\<close> is a loop that
  has not ended within \<open>fuel\<close> checks. An ended loop has either returned the timeout
  response from inside (\<open>Some r\<close>) or fallen through (\<open>None\<close>).
\<close>

fun wait_loop ::
  "nat \<Rightarrow> config \<Rightarrow> env \<Rightarrow> real \<Rightarrow> nat \<Rightarrow> world \<Rightarrow> (pyval option \<times> world \<times> effect list) option" where
  "wait_loop 0 cfg ev start_time k w = None"
| "wait_loop (Suc fuel) cfg ev start_time k w =
     (if spotify_tokens w \<noteq> [] then Some (None, w, [])
      else
        (let w1 = deliver cfg (arrivals ev (Testing k)) w in
         if rounded ev (clock ev (Suc k) - start_time) > 120 then
           Some (Some timeout_response, w1, [])
         else
           (case wait_loop fuel cfg ev start_time (Suc k)
                   (deliver cfg (arrivals ev (Sleeping k)) w1) of
              None \<Rightarrow> None
            | Some (r, w', es) \<Rightarrow> Some (r, w', Sleep 1 # es))))"

definition read_access_token :: "world \<Rightarrow> py_error + pyval" where
  "read_access_token w =
     (case map_of (spotify_tokens w) ''access_token'' of
        None \<Rightarrow> Inl KeyError
      | Some t \<Rightarrow> Inr (Json t))"

definition get_spotify_token ::
  "nat \<Rightarrow> config \<Rightarrow> env \<Rightarrow> world \<Rightarrow> ((py_error + pyval) \<times> world \<times> effect list) option" where
  "get_spotify_token fuel cfg ev w =
     (if spotify_tokens w = [] then
        (let auth_url = map_of (spotify_auth cfg) ''auth_url'' in
         case wait_loop fuel cfg ev (clock ev 0) 0 (deliver cfg (arrivals ev Opening) w) of
           None \<Rightarrow> None
         | Some (Some r, w', es) \<Rightarrow> Some (Inr r, w', BrowserOpen auth_url # es)
         | Some (None, w', es) \<Rightarrow> Some (read_access_token w', w', BrowserOpen auth_url # es))
      else Some (read_access_token w, w, []))"

section \<open>\<open>get_track_info\<close> and \<open>add_preferences\<close>\<close>

definition search_request :: "pyval \<Rightarrow> string \<Rightarrow> string \<Rightarrow> http_request" where
  "search_request access_token track artist =
     Get ''https://api.spotify.com/v1/search'' access_token
       [(''q'', JStr (track @ '' '' @ artist)), (''type'', JStr ''track''), (''limit'', JInt 1)]"

text \<open>The element of the comprehension: five reads of the item, in the order written.\<close>

definition track_info_entry :: "json \<Rightarrow> py_error + json" where
  "track_info_entry track =
     bind_err (getitem track ''name'') (\<lambda>n.
     bind_err (bind_err (bind_err (getitem track ''artists'') getfirst)
                 (\<lambda>a. getitem a ''name'')) (\<lambda>ar.
     bind_err (bind_err (getitem track ''album'') (\<lambda>al. getitem al ''name'')) (\<lambda>alb.
     bind_err (bind_err (getitem track ''album'') (\<lambda>al. getitem al ''release_date'')) (\<lambda>rd.
     bind_err (bind_err (getitem track ''album'') (\<lambda>al. getitem al ''album_type'')) (\<lambda>ty.
       Inr (JDict [(''track_name'', n), (''artist'', ar), (''album'', alb),
                   (''release_date'', rd), (''album_type'', ty)]))))))"

definition get_track_info ::
  "remote \<Rightarrow> pyval \<Rightarrow> string \<Rightarrow> string \<Rightarrow> (py_error + pyval) \<times> effect list" where
  "get_track_info http access_token track artist =
     (let req = search_request access_token track artist in
      case http req of
        Inl e \<Rightarrow> (Inl e, [Http req])
      | Inr response \<Rightarrow>
          if status_code response = 200 then
            (bind_err (response_json response) (\<lambda>search_data.
             bind_err (getitem search_data ''tracks'') (\<lambda>t.
             bind_err (getitem t ''items'') (\<lambda>its.
             bind_err (iterate its) (\<lambda>items.
             bind_err (comprehension track_info_entry items) (\<lambda>tracks.
               Inr (Json (JList tracks))))))),
             [Http req])
          else
            (Inr (Response (Json (JDict [(''error'', JStr ''Error al obtener las canciones.'')]))
                    HTTP_400_BAD_REQUEST),
             [Http req]))"

text \<open>
  \<open>user.save()\<close> writes the fields of the instance to the row of its primary key. The
  JSON column serializes its value first, which fails for a \<open>Response\<close> object, and the
  database takes the text only when it is JSON (otherwise the backend raises an error
  of the \<open>DatabaseError\<close> family). A failed \<open>save\<close> stores nothing.
\<close>

definition save :: "nat \<Rightarrow> string \<Rightarrow> string \<Rightarrow> pyval \<Rightarrow> world \<Rightarrow> py_error + world" where
  "save user_id n e prefs w =
     (case dumps prefs of
        None \<Rightarrow> Inl TypeError
      | Some j \<Rightarrow>
          if finite_json j then
            Inr (w\<lparr>users := (users w)(user_id \<mapsto> \<lparr>name = n, email = e, preferences = j\<rparr>)\<rparr>)
          else Inl DatabaseError)"

definition add_preferences ::
  "nat \<Rightarrow> config \<Rightarrow> env \<Rightarrow> nat \<Rightarrow> string \<Rightarrow> string \<Rightarrow> world \<Rightarrow>
   ((py_error + pyval) \<times> world \<times> effect list) option" where
  "add_preferences fuel cfg ev user_id track artist w =
     (case users w user_id of
        None \<Rightarrow> Some (Inl DoesNotExist, w, [])
      | Some user \<Rightarrow>
         (case get_spotify_token fuel cfg ev w of
            None \<Rightarrow> None
          | Some (Inl e, w1, es1) \<Rightarrow> Some (Inl e, w1, es1)
          | Some (Inr access_token, w1, es1) \<Rightarrow>
             (case get_track_info (requests ev) access_token track artist of
                (Inl e, es2) \<Rightarrow> Some (Inl e, w1, es1 @ es2)
              | (Inr track_info, es2) \<Rightarrow>
                 (case list_append (Json (preferences user)) (PyDict [(''track_info'', track_info)]) of
                    Inl e \<Rightarrow> Some (Inl e, w1, es1 @ es2)
                  | Inr prefs \<Rightarrow>
                     (case save user_id (name user) (email user) prefs w1 of
                        Inl e \<Rightarrow> Some (Inl e, w1, es1 @ es2)
                      | Inr w2 \<Rightarrow>
                          Some (Inr (Response
                                  (PyDict
                                     [(''message'', Json (JStr ''Preferencias agregadas correctamente'')),
                                      (''Usuario actualizado'',
                                       PyDict [(''name'', Json (JStr (name user))),
                                               (''email'', Json (JStr (email user))),
                                               (''preferences'', prefs)])])
                                  HTTP_200_OK),
                                w2, es1 @ es2))))))"

section \<open>\<open>get_top_artists\<close>, \<open>get_top_tracks\<close> and \<open>get_user_info\<close>\<close>

definition top_request :: "string \<Rightarrow> pyval \<Rightarrow> int \<Rightarrow> string \<Rightarrow> http_request" where
  "top_request url access_token limit time_range =
     Get url access_token [(''limit'', JInt limit), (''time_range'', JStr time_range)]"

definition top_artist_entry :: "json \<Rightarrow> py_error + json" where
  "top_artist_entry artist =
     bind_err (getitem artist ''name'') (\<lambda>n.
     bind_err (getitem artist ''genres'') (\<lambda>g.
       Inr (JDict [(''name'', n), (''genres'', g)])))"

definition get_top_artists ::
  "remote \<Rightarrow> pyval \<Rightarrow> int \<Rightarrow> string \<Rightarrow> (py_error + pyval) \<times> effect list" where
  "get_top_artists http access_token limit time_range =
     (let req = top_request SPOTIFY_API_URL access_token limit time_range in
      case http req of
        Inl e \<Rightarrow> (Inl e, [Http req])
      | Inr response \<Rightarrow>
          if status_code response = 200 then
            (bind_err (response_json response) (\<lambda>artists_data.
             bind_err (getitem artists_data ''items'') (\<lambda>its.
             bind_err (iterate its) (\<lambda>items.
             bind_err (comprehension top_artist_entry items) (\<lambda>artists.
               Inr (Json (JDict [(''top_artists'', JList artists)])))))),
             [Http req])
          else
            (Inr (Response (Json (JDict [(''error'', JStr ''Error al obtener los artistas'')]))
                    HTTP_400_BAD_REQUEST),
             [Http req]))"

definition top_track_entry :: "json \<Rightarrow> py_error + json" where
  "top_track_entry track =
     bind_err (getitem track ''name'') (\<lambda>n.
     bind_err (bind_err (bind_err (getitem track ''artists'') getfirst)
                 (\<lambda>a. getitem a ''name'')) (\<lambda>ar.
     bind_err (bind_err (getitem track ''album'') (\<lambda>al. getitem al ''name'')) (\<lambda>alb.
       Inr (JDict [(''track_name'', n), (''artist'', ar), (''album'', alb)]))))"

text \<open>
  On a status other than 200 the function executes \<open>raise Response(...)\<close>. A
  \<open>Response\<close> is not an exception class, so the \<open>raise\<close> statement itself fails with
  a TypeError.
\<close>

definition get_top_tracks ::
  "remote \<Rightarrow> pyval \<Rightarrow> int \<Rightarrow> string \<Rightarrow> (py_error + pyval) \<times> effect list" where
  "get_top_tracks http access_token limit time_range =
     (let req = top_request ''https://api.spotify.com/v1/me/top/tracks'' access_token limit time_range in
      case http req of
        Inl e \<Rightarrow> (Inl e, [Http req])
      | Inr response \<Rightarrow>
          if status_code response = 200 then
            (bind_err (response_json response) (\<lambda>tracks_data.
             bind_err (getitem tracks_data ''items'') (\<lambda>its.
             bind_err (iterate its) (\<lambda>items.
             bind_err (comprehension top_track_entry items) (\<lambda>tracks.
               Inr (Json (JDict [(''top_tracks'', JList tracks)])))))),
             [Http req])
          else (Inl TypeError, [Http req]))"

definition get_user_info ::
  "nat \<Rightarrow> config \<Rightarrow> env \<Rightarrow> world \<Rightarrow> ((py_error + pyval) \<times> world \<times> effect list) option" where
  "get_user_info fuel cfg ev w =
     (case get_spotify_token fuel cfg ev w of
        None \<Rightarrow> None
      | Some (Inl e, w1, es1) \<Rightarrow> Some (Inl e, w1, es1)
      | Some (Inr access_token, w1, es1) \<Rightarrow>
         (case get_top_tracks (requests ev) access_token 10 ''medium_term'' of
            (Inl e, es2) \<Rightarrow> Some (Inl e, w1, es1 @ es2)
          | (Inr top_tracks, es2) \<Rightarrow>
             (case get_top_artists (requests ev) access_token 10 ''medium_term'' of
                (Inl e, es3) \<Rightarrow> Some (Inl e, w1, es1 @ es2 @ es3)
              | (Inr top_artists, es3) \<Rightarrow>
                  Some (Inr (Response
                          (PyDict
                             [(''Canciones m'' @ [CHR 0xC3, CHR 0xA1] @ ''s escuchadas'', top_tracks),
                              (''Artistas m'' @ [CHR 0xC3, CHR 0xA1] @ ''s escuchados'', top_artists)])
                          HTTP_200_OK),
                        w1, es1 @ es2 @ es3))))"

section \<open>The specification's vocabulary\<close>

text \<open>
  The specification describes the authorization URL as an endpoint followed by query
  parameters, and the reshaped responses by the fields each output entry has. The
  definitions of this section follow these words; the claims compare them with the
  functions of \<open>views.py\<close> above.
\<close>


text \<open>The value of a key of a JSON object; nothing else has fields.\<close>

definition field :: "string \<Rightarrow> json \<Rightarrow> json option" where
  "field key v = (case v of JDict kvs \<Rightarrow> map_of kvs key | _ \<Rightarrow> None)"

text \<open>The first element of a JSON array that has one.\<close>

definition first_listed :: "json \<Rightarrow> json option" where
  "first_listed v = (case v of JList (x # xs) \<Rightarrow> Some x | _ \<Rightarrow> None)"

text \<open>
  The entry the specification gives for an item of a track search: \<open>track_name\<close>,
  \<open>artist\<close> (the name of the first listed artist), \<open>album\<close>, \<open>release_date\<close> and
  \<open>album_type\<close> (the last three from the album of the item). An item lacking one of
  them has no entry.
\<close>

definition simplified_track_info :: "json \<Rightarrow> json option" where
  "simplified_track_info item =
     (case (field ''name'' item,
            Option.bind (Option.bind (field ''artists'' item) first_listed) (field ''name''),
            Option.bind (field ''album'' item) (field ''name''),
            Option.bind (field ''album'' item) (field ''release_date''),
            Option.bind (field ''album'' item) (field ''album_type'')) of
        (Some n, Some ar, Some alb, Some rd, Some ty) \<Rightarrow>
          Some (JDict [(''track_name'', n), (''artist'', ar), (''album'', alb),
                       (''release_date'', rd), (''album_type'', ty)])
      | _ \<Rightarrow> None)"

text \<open>The entry for an item of the top tracks: \<open>track_name\<close>, \<open>artist\<close> and \<open>album\<close>.\<close>

definition simplified_top_track :: "json \<Rightarrow> json option" where
  "simplified_top_track item =
     (case (field ''name'' item,
            Option.bind (Option.bind (field ''artists'' item) first_listed) (field ''name''),
            Option.bind (field ''album'' item) (field ''name'')) of
        (Some n, Some ar, Some alb) \<Rightarrow>
          Some (JDict [(''track_name'', n), (''artist'', ar), (''album'', alb)])
      | _ \<Rightarrow> None)"

text \<open>The entry for an item of the top artists: \<open>name\<close> and \<open>genres\<close>.\<close>

definition simplified_artist :: "json \<Rightarrow> json option" where
  "simplified_artist item =
     (case (field ''name'' item, field ''genres'' item) of
        (Some n, Some g) \<Rightarrow> Some (JDict [(''name'', n), (''genres'', g)])
      | _ \<Rightarrow> None)"

section \<open>The surroundings over time\<close>

text \<open>
  The callbacks that arrive decide what the token store holds at each test of the
  waiting view, and the clock and the rounding decide what elapsed time each check
  computes. Both are functions of the surroundings alone.
\<close>

text \<open>
  The state of the process at test number \<open>k\<close> of the store, when the view that
  started in \<open>w\<close> keeps waiting: the callbacks of every earlier slot have run, in the
  order of the slots.
\<close>

fun world_at :: "config \<Rightarrow> env \<Rightarrow> world \<Rightarrow> nat \<Rightarrow> world" where
  "world_at cfg ev w 0 = deliver cfg (arrivals ev Opening) w"
| "world_at cfg ev w (Suc k) =
     deliver cfg (arrivals ev (Sleeping k))
       (deliver cfg (arrivals ev (Testing k)) (world_at cfg ev w k))"

text \<open>The value of \<open>time.time() - start_time\<close> that check \<open>k\<close> computes.\<close>

definition elapsed :: "env \<Rightarrow> nat \<Rightarrow> real" where
  "elapsed ev k = rounded ev (clock ev (Suc k) - clock ev 0)"

section \<open>Notions used in the proofs\<close>

text \<open>
  What every state reached from the empty token store satisfies: the store is empty or
  holds an access token.
\<close>

definition tokens_inv :: "world \<Rightarrow> bool" where
  "tokens_inv w = (spotify_tokens w = [] \<or> map_of (spotify_tokens w) ''access_token'' \<noteq> None)"

text \<open>The value of a computation that raised nothing.\<close>

definition ok :: "'e + 'a \<Rightarrow> 'a option" where
  "ok m = (case m of Inl e \<Rightarrow> None | Inr x \<Rightarrow> Some x)"

section \<open>Sample inputs\<close>

text \<open>
  Concrete settings, third-party behaviour, tables and surroundings, on which the
  general statements are instantiated.
\<close>

text \<open>Settings with a client id and a client secret; the redirect URI is left to its default.\<close>

definition sample_config :: config where
  "sample_config =
     load_config (\<lambda>v. if v = ''SPOTIFY_CLIENT_ID'' then Some ''client123''
                       else if v = ''SPOTIFY_CLIENT_SECRET'' then Some ''secret456''
                       else None)"

definition sample_tokens :: "(string \<times> json) list" where
  "sample_tokens =
     [(''access_token'', JStr ''BQDtoken''), (''refresh_token'', JStr ''AQDrefresh''),
      (''expires_in'', JInt 3600)]"

text \<open>A track object and an artist object as the third party sends them.\<close>

definition sample_track :: json where
  "sample_track =
     JDict [(''name'', JStr ''Yellow''),
            (''artists'', JList [JDict [(''name'', JStr ''Coldplay''), (''id'', JStr ''4gzpq5'')]]),
            (''album'', JDict [(''name'', JStr ''Parachutes''),
                               (''release_date'', JStr ''2000-07-10''),
                               (''album_type'', JStr ''album'')]),
            (''popularity'', JInt 88)]"

definition sample_artist :: json where
  "sample_artist =
     JDict [(''name'', JStr ''Coldplay''),
            (''genres'', JList [JStr ''pop'', JStr ''rock'']),
            (''popularity'', JInt 90)]"

text \<open>The simplified entry of \<open>sample_track\<close> in a track search.\<close>

definition yellow :: json where
  "yellow = JDict [(''track_name'', JStr ''Yellow''), (''artist'', JStr ''Coldplay''),
                   (''album'', JStr ''Parachutes''), (''release_date'', JStr ''2000-07-10''),
                   (''album_type'', JStr ''album'')]"

text \<open>
  A third party that answers every request with status 200: a token pair to the token
  exchange, one track to a search and to the top tracks, one artist to the top artists.
\<close>

definition spotify_up :: remote where
  "spotify_up req =
     (case req of
        Post url headers form \<Rightarrow>
          Inr \<lparr>status_code = 200,
               json_body = Some (JDict [(''access_token'', JStr ''BQDtoken''),
                                        (''token_type'', JStr ''Bearer''),
                                        (''expires_in'', JInt 3600),
                                        (''refresh_token'', JStr ''AQDrefresh'')])\<rparr>
      | Get url bearer params \<Rightarrow>
          if url = ''https://api.spotify.com/v1/search'' then
            Inr \<lparr>status_code = 200,
                 json_body = Some (JDict [(''tracks'', JDict [(''items'', JList [sample_track])])])\<rparr>
          else if url = ''https://api.spotify.com/v1/me/top/tracks'' then
            Inr \<lparr>status_code = 200, json_body = Some (JDict [(''items'', JList [sample_track])])\<rparr>
          else
            Inr \<lparr>status_code = 200, json_body = Some (JDict [(''items'', JList [sample_artist])])\<rparr>)"

text \<open>A third party that answers every request with status 401, as for an expired token.\<close>

definition spotify_denies :: remote where
  "spotify_denies req =
     Inr \<lparr>status_code = 401,
          json_body = Some (JDict [(''error'', JDict [(''status'', JInt 401),
                                                      (''message'', JStr ''The access token expired'')])])\<rparr>"

text \<open>
  Three users: 7 was created without a value for \<open>preferences\<close>, 8 with \<open>None\<close>,
  9 with a list of two earlier entries.
\<close>

definition sample_users :: "nat \<Rightarrow> User option" where
  "sample_users =
     Map.empty(7 \<mapsto> User_init ''Ana'' ''ana@example.org'' None,
               8 \<mapsto> User_init ''Luis'' ''luis@example.org'' (Some JNull),
               9 \<mapsto> User_init ''Eva'' ''eva@example.org''
                     (Some (JList [JDict [(''track_info'', JList [])], JStr ''older entry''])))"

text \<open>The process before and after a completed authorization.\<close>

definition fresh_world :: world where
  "fresh_world = \<lparr>spotify_tokens = [], users = sample_users\<rparr>"

definition signed_in_world :: world where
  "signed_in_world = \<lparr>spotify_tokens = sample_tokens, users = sample_users\<rparr>"

text \<open>
  Surroundings in which no callback arrives and the clock advances by one second from
  reading to reading. Every difference of two readings is then a small whole number,
  which floating point holds exactly: the rounding changes nothing.
\<close>

definition quiet_env :: "remote \<Rightarrow> env" where
  "quiet_env api =
     \<lparr>requests = api, clock = (\<lambda>n. real n), rounded = (\<lambda>x. x), arrivals = (\<lambda>s. [])\<rparr>"

text \<open>
  The same clock and rounding; the user completes the authorization during the second
  sleep, the one that follows check 1.
\<close>

definition login_env :: env where
  "login_env =
     \<lparr>requests = spotify_up, clock = (\<lambda>n. real n), rounded = (\<lambda>x. x),
      arrivals = (\<lambda>s. if s = Sleeping 1 then [(Some ''AQBcode'', spotify_up)] else [])\<rparr>"

section \<open>Auxiliary facts\<close>

subsection \<open>Exceptions and subscripting\<close>

lemma bind_err_Inr:
  "bind_err m f = Inr y \<longleftrightarrow> (\<exists>x. m = Inr x \<and> f x = Inr y)"
  by (cases m) (simp_all add: bind_err_def)

lemma bind_err_simps [simp]:
  "bind_err (Inl e) f = Inl e" "bind_err (Inr x) f = f x"
  by (simp_all add: bind_err_def)

lemma ok_simps [simp]: "ok (Inl e) = None" "ok (Inr x) = Some x"
  by (simp_all add: ok_def)

lemma ok_bind: "ok (bind_err m f) = Option.bind (ok m) (\<lambda>x. ok (f x))"
  by (cases m) simp_all

lemma ok_getitem: "ok (getitem v key) = field key v"
  by (cases v) (simp_all add: field_def split: option.splits)

lemma ok_getfirst_getitem:
  "ok (bind_err (getfirst v) (\<lambda>a. getitem a key)) = Option.bind (first_listed v) (field key)"
proof (cases v)
  case (JList xs)
  then show ?thesis by (cases xs) (simp_all add: first_listed_def ok_getitem)
next
  case (JStr s)
  then show ?thesis by (cases "code_points s") (simp_all add: first_listed_def)
qed (simp_all add: first_listed_def)

lemma ok_chain:
  "ok (bind_err (getitem v k1) (\<lambda>a. getitem a k2)) = Option.bind (field k1 v) (field k2)"
  by (simp add: ok_bind ok_getitem)

lemma ok_artist_chain:
  "ok (bind_err (bind_err (getitem v ''artists'') getfirst) (\<lambda>a. getitem a ''name''))
     = Option.bind (Option.bind (field ''artists'' v) first_listed) (field ''name'')"
proof (cases "getitem v ''artists''")
  case (Inl e)
  then have "field ''artists'' v = None" using ok_getitem [of v "''artists''"] by simp
  with Inl show ?thesis by simp
next
  case (Inr a)
  then have "field ''artists'' v = Some a" using ok_getitem [of v "''artists''"] by simp
  with Inr show ?thesis using ok_getfirst_getitem [of a "''name''"] by simp
qed

lemma field_Some_getitem: "field key v = Some x \<Longrightarrow> getitem v key = Inr x"
  using ok_getitem [of v key] by (cases "getitem v key") simp_all

subsection \<open>The token store\<close>

lemma token_entry_Inr:
  "token_entry td = Inr toks \<Longrightarrow> toks \<noteq> [] \<and> map_of toks ''access_token'' \<noteq> None"
  by (auto simp: token_entry_def bind_err_Inr)

lemma callback_world:
  "callback cfg h code w = (r, w', es) \<Longrightarrow>
     users w' = users w \<and> (w' = w \<or> (spotify_tokens w' \<noteq> [] \<and> map_of (spotify_tokens w') ''access_token'' \<noteq> None))"
  by (auto simp: callback_def Let_def bind_err_Inr split: sum.splits if_splits dest: token_entry_Inr)

lemma callback_inv:
  "tokens_inv w \<Longrightarrow> tokens_inv (fst (snd (callback cfg h code w)))"
  using callback_world [of cfg h code w] unfolding tokens_inv_def
  by (cases "callback cfg h code w") auto

lemma callback_users:
  "users (fst (snd (callback cfg h code w))) = users w"
  using callback_world [of cfg h code w]
  by (cases "callback cfg h code w") auto

lemma deliver_inv: "tokens_inv w \<Longrightarrow> tokens_inv (deliver cfg cs w)"
  unfolding deliver_def by (induction cs arbitrary: w) (simp_all add: callback_inv)

lemma deliver_users: "users (deliver cfg cs w) = users w"
  unfolding deliver_def by (induction cs arbitrary: w) (simp_all add: callback_users)

lemma empty_inv: "spotify_tokens w = [] \<Longrightarrow> tokens_inv w"
  by (simp add: tokens_inv_def)

lemma world_at_inv: "spotify_tokens w = [] \<Longrightarrow> tokens_inv (world_at cfg ev w k)"
  by (induction k) (simp_all add: deliver_inv empty_inv)

lemma world_at_users: "users (world_at cfg ev w k) = users w"
  by (induction k) (simp_all add: deliver_users)

lemma read_access_token_inv:
  "tokens_inv w \<Longrightarrow> spotify_tokens w \<noteq> [] \<Longrightarrow>
     \<exists>t. read_access_token w = Inr (Json t) \<and> map_of (spotify_tokens w) ''access_token'' = Some t"
  by (auto simp: tokens_inv_def read_access_token_def)

lemma auth_url_lookup:
  "map_of (spotify_auth cfg) ''auth_url'' =
     Some (''https://accounts.spotify.com/authorize?response_type=code&client_id='' @
           fstr (SPOTIFY_CLIENT_ID cfg) @ ''&redirect_uri='' @ SPOTIFY_REDIRECT_URI cfg @
           ''&scope=user-top-read'')"
  by (simp add: spotify_auth_def SPOTIFY_AUTH_URL_def SCOPE_def)

subsection \<open>The wait loop\<close>

lemma wait_loop_result:
  "wait_loop fuel cfg ev st k w = Some (r, w', es) \<Longrightarrow>
     (\<exists>n. es = replicate n (Sleep 1)) \<and> users w' = users w"
proof (induction fuel arbitrary: k w es)
  case 0
  then show ?case by simp
next
  case (Suc fuel)
  let ?w1 = "deliver cfg (arrivals ev (Testing k)) w"
  let ?w2 = "deliver cfg (arrivals ev (Sleeping k)) ?w1"
  show ?case
  proof (cases "spotify_tokens w \<noteq> []")
    case True
    with Suc.prems have "es = replicate 0 (Sleep 1) \<and> w' = w" by auto
    then show ?thesis by blast
  next
    case empty: False
    show ?thesis
    proof (cases "rounded ev (clock ev (Suc k) - st) > 120")
      case True
      with empty Suc.prems have "es = replicate 0 (Sleep 1) \<and> w' = ?w1"
        by (auto simp: Let_def)
      then show ?thesis using deliver_users by blast
    next
      case False
      from empty False Suc.prems obtain es1
        where rec: "wait_loop fuel cfg ev st (Suc k) ?w2 = Some (r, w', es1)"
          and es: "es = Sleep 1 # es1"
        by (auto simp: Let_def split: option.splits)
      from Suc.IH [OF rec] obtain n where n: "es1 = replicate n (Sleep 1)"
        and u: "users w' = users ?w2" by blast
      from es n have "es = replicate (Suc n) (Sleep 1)" by simp
      moreover from u have "users w' = users w" by (simp add: deliver_users)
      ultimately show ?thesis by blast
    qed
  qed
qed

lemma wait_loop_first:
  assumes "\<forall>j. k \<le> j \<and> j < n \<longrightarrow>
             spotify_tokens (world_at cfg ev w j) = [] \<and> \<not> elapsed ev j > 120"
    and "k \<le> n" and "n - k < fuel"
    and "spotify_tokens (world_at cfg ev w n) \<noteq> [] \<or> elapsed ev n > 120"
  shows "wait_loop fuel cfg ev (clock ev 0) k (world_at cfg ev w k) =
           Some (if spotify_tokens (world_at cfg ev w n) \<noteq> [] then
                   (None, world_at cfg ev w n, replicate (n - k) (Sleep 1))
                 else
                   (Some timeout_response,
                    deliver cfg (arrivals ev (Testing n)) (world_at cfg ev w n),
                    replicate (n - k) (Sleep 1)))"
  using assms
proof (induction fuel arbitrary: k)
  case 0
  then show ?case by simp
next
  case (Suc fuel)
  show ?case
  proof (cases "k = n")
    case True
    show ?thesis
    proof (cases "spotify_tokens (world_at cfg ev w n) \<noteq> []")
      case full: True
      with True show ?thesis by simp
    next
      case False
      with Suc.prems(4) have "elapsed ev n > 120" by simp
      with False True show ?thesis by (simp add: elapsed_def Let_def)
    qed
  next
    case False
    with Suc.prems(2) have less: "k < n" by simp
    with Suc.prems(1) have here: "spotify_tokens (world_at cfg ev w k) = []"
      "\<not> elapsed ev k > 120" by simp_all
    have later: "\<forall>j. Suc k \<le> j \<and> j < n \<longrightarrow>
             spotify_tokens (world_at cfg ev w j) = [] \<and> \<not> elapsed ev j > 120"
      using Suc.prems(1) by simp
    have "n - Suc k < fuel" using Suc.prems(3) less by simp
    from Suc.IH [OF later _ this Suc.prems(4)] less
    have rec: "wait_loop fuel cfg ev (clock ev 0) (Suc k) (world_at cfg ev w (Suc k)) =
           Some (if spotify_tokens (world_at cfg ev w n) \<noteq> [] then
                   (None, world_at cfg ev w n, replicate (n - Suc k) (Sleep 1))
                 else
                   (Some timeout_response,
                    deliver cfg (arrivals ev (Testing n)) (world_at cfg ev w n),
                    replicate (n - Suc k) (Sleep 1)))"
      by simp
    have rep: "replicate (n - k) (Sleep 1) = Sleep 1 # replicate (n - Suc k) (Sleep 1)"
      using less by (simp add: Suc_diff_Suc flip: replicate_Suc)
    from here rec show ?thesis
      unfolding rep by (simp add: elapsed_def Let_def)
  qed
qed

lemma wait_loop_terminates:
  "k \<le> j \<Longrightarrow> j < k + fuel \<Longrightarrow> rounded ev (clock ev (Suc j) - st) > 120 \<Longrightarrow>
     wait_loop fuel cfg ev st k w \<noteq> None"
proof (induction fuel arbitrary: k w)
  case 0
  then show ?case by simp
next
  case (Suc fuel)
  show ?case
  proof (cases "spotify_tokens w \<noteq> [] \<or> rounded ev (clock ev (Suc k) - st) > 120")
    case True
    then show ?thesis by (auto simp: Let_def)
  next
    case False
    then have "j \<noteq> k" using Suc.prems(3) by auto
    with Suc.prems have "Suc k \<le> j" "j < Suc k + fuel" by simp_all
    from Suc.IH [OF this Suc.prems(3)] False show ?thesis
      by (auto simp: Let_def split: option.splits)
  qed
qed

lemma first_check:
  assumes "P (m::nat)"
  shows "\<exists>n\<le>m. P n \<and> (\<forall>j<n. \<not> P j)"
proof -
  have "P (LEAST n. P n)" using assms by (rule LeastI)
  moreover have "(LEAST n. P n) \<le> m" using assms by (rule Least_le)
  moreover have "\<forall>j<LEAST n. P n. \<not> P j" using not_less_Least by blast
  ultimately show ?thesis by blast
qed

lemma steady_clock:
  assumes "clock ev 0 \<le> clock ev 1"
    and "\<forall>k. clock ev (Suc k) + 1 \<le> clock ev (Suc (Suc k))"
  shows "clock ev 0 + real j \<le> clock ev (Suc j)"
proof (induction j)
  case 0
  with assms(1) show ?case by simp
next
  case (Suc j)
  from assms(2) have "clock ev (Suc j) + 1 \<le> clock ev (Suc (Suc j))" by blast
  with Suc show ?case by simp
qed

lemma steady_elapsed:
  assumes "clock ev 0 \<le> clock ev 1"
    and "\<forall>k. clock ev (Suc k) + 1 \<le> clock ev (Suc (Suc k))"
    and "mono (rounded ev)" and "rounded ev 121 = 121"
  shows "elapsed ev 121 > 120"
proof -
  have "121 \<le> clock ev (Suc 121) - clock ev 0"
    using steady_clock [OF assms(1,2), of 121] by simp
  with assms(3) have "rounded ev 121 \<le> rounded ev (clock ev (Suc 121) - clock ev 0)"
    by (rule monoD)
  with assms(4) show ?thesis by (simp add: elapsed_def)
qed

lemma get_spotify_token_users:
  assumes "get_spotify_token fuel cfg ev w = Some (r, w', es)"
  shows "users w' = users w"
proof (cases "spotify_tokens w = []")
  case False
  with assms show ?thesis by (auto simp: get_spotify_token_def)
next
  case True
  let ?w0 = "deliver cfg (arrivals ev Opening) w"
  from assms True obtain r1 es1 where
    loop: "wait_loop fuel cfg ev (clock ev 0) 0 ?w0 = Some (r1, w', es1)"
    by (auto simp: get_spotify_token_def Let_def split: option.splits)
  from wait_loop_result [OF loop] have "users w' = users ?w0" by (elim exE conjE)
  then show ?thesis by (simp add: deliver_users)
qed

subsection \<open>Reshaping\<close>

lemma track_info_entry_eq:
  "track_info_entry item = Inr d \<longleftrightarrow> simplified_track_info item = Some d"
proof -
  define mA where "mA = getitem item ''name''"
  define mB where
    "mB = bind_err (bind_err (getitem item ''artists'') getfirst) (\<lambda>a. getitem a ''name'')"
  define mC where "mC = bind_err (getitem item ''album'') (\<lambda>al. getitem al ''name'')"
  define mD where "mD = bind_err (getitem item ''album'') (\<lambda>al. getitem al ''release_date'')"
  define mE where "mE = bind_err (getitem item ''album'') (\<lambda>al. getitem al ''album_type'')"
  have entry: "track_info_entry item =
      bind_err mA (\<lambda>n. bind_err mB (\<lambda>ar. bind_err mC (\<lambda>alb. bind_err mD (\<lambda>rd. bind_err mE (\<lambda>ty.
        Inr (JDict [(''track_name'', n), (''artist'', ar), (''album'', alb),
                    (''release_date'', rd), (''album_type'', ty)]))))))"
    unfolding track_info_entry_def mA_def mB_def mC_def mD_def mE_def by (rule refl)
  have spec: "simplified_track_info item =
      (case (ok mA, ok mB, ok mC, ok mD, ok mE) of
         (Some n, Some ar, Some alb, Some rd, Some ty) \<Rightarrow>
           Some (JDict [(''track_name'', n), (''artist'', ar), (''album'', alb),
                        (''release_date'', rd), (''album_type'', ty)])
       | _ \<Rightarrow> None)"
    unfolding simplified_track_info_def mA_def mB_def mC_def mD_def mE_def
    by (simp only: ok_getitem ok_artist_chain ok_chain)
  show ?thesis unfolding entry spec
    by (cases mA; cases mB; cases mC; cases mD; cases mE) simp_all
qed

lemma top_track_entry_eq:
  "top_track_entry item = Inr d \<longleftrightarrow> simplified_top_track item = Some d"
proof -
  define mA where "mA = getitem item ''name''"
  define mB where
    "mB = bind_err (bind_err (getitem item ''artists'') getfirst) (\<lambda>a. getitem a ''name'')"
  define mC where "mC = bind_err (getitem item ''album'') (\<lambda>al. getitem al ''name'')"
  have entry: "top_track_entry item =
      bind_err mA (\<lambda>n. bind_err mB (\<lambda>ar. bind_err mC (\<lambda>alb.
        Inr (JDict [(''track_name'', n), (''artist'', ar), (''album'', alb)]))))"
    unfolding top_track_entry_def mA_def mB_def mC_def by (rule refl)
  have spec: "simplified_top_track item =
      (case (ok mA, ok mB, ok mC) of
         (Some n, Some ar, Some alb) \<Rightarrow>
           Some (JDict [(''track_name'', n), (''artist'', ar), (''album'', alb)])
       | _ \<Rightarrow> None)"
    unfolding simplified_top_track_def mA_def mB_def mC_def
    by (simp only: ok_getitem ok_artist_chain ok_chain)
  show ?thesis unfolding entry spec
    by (cases mA; cases mB; cases mC) simp_all
qed

lemma top_artist_entry_eq:
  "top_artist_entry item = Inr d \<longleftrightarrow> simplified_artist item = Some d"
proof -
  define mA where "mA = getitem item ''name''"
  define mB where "mB = getitem item ''genres''"
  have entry: "top_artist_entry item =
      bind_err mA (\<lambda>n. bind_err mB (\<lambda>g. Inr (JDict [(''name'', n), (''genres'', g)])))"
    unfolding top_artist_entry_def mA_def mB_def by (rule refl)
  have spec: "simplified_artist item =
      (case (ok mA, ok mB) of
         (Some n, Some g) \<Rightarrow> Some (JDict [(''name'', n), (''genres'', g)])
       | _ \<Rightarrow> None)"
    unfolding simplified_artist_def mA_def mB_def by (simp only: ok_getitem)
  show ?thesis unfolding entry spec
    by (cases mA; cases mB) simp_all
qed

lemma comprehension_Inr:
  "comprehension f xs = Inr ys \<longleftrightarrow> list_all2 (\<lambda>x y. f x = Inr y) xs ys"
proof (induction xs arbitrary: ys)
  case Nil
  then show ?case by auto
next
  case (Cons x xs)
  then show ?case by (cases ys) (auto simp: bind_err_Inr)
qed

lemma comprehension_total:
  "\<forall>x\<in>set xs. \<exists>y. f x = Inr y \<Longrightarrow> \<exists>ys. comprehension f xs = Inr ys"
  by (induction xs) auto

lemma comprehension_nth:
  "comprehension f xs = Inr ys \<longleftrightarrow>
     length ys = length xs \<and> (\<forall>i<length xs. f (xs ! i) = Inr (ys ! i))"
  by (auto simp: comprehension_Inr list_all2_conv_all_nth)

lemma comprehension_exists:
  assumes "\<forall>x\<in>set xs. g x \<noteq> None" and "\<And>x y. f x = Inr y \<longleftrightarrow> g x = Some y"
  shows "\<exists>ys. comprehension f xs = Inr ys \<and> length ys = length xs
           \<and> (\<forall>i<length xs. g (xs ! i) = Some (ys ! i))"
proof -
  from assms have "\<forall>x\<in>set xs. \<exists>y. f x = Inr y" by auto
  then obtain ys where ys: "comprehension f xs = Inr ys" using comprehension_total by blast
  then have "length ys = length xs \<and> (\<forall>i<length xs. f (xs ! i) = Inr (ys ! i))"
    by (simp add: comprehension_nth)
  with ys assms(2) show ?thesis by auto
qed

lemma get_track_info_reshape:
  assumes "http (search_request tok track artist) = Inr resp"
    and "status_code resp = 200" and "json_body resp = Some body"
    and "field ''tracks'' body = Some t" and "field ''items'' t = Some (JList items)"
    and "\<forall>item\<in>set items. simplified_track_info item \<noteq> None"
  shows "\<exists>out. get_track_info http tok track artist =
                 (Inr (Json (JList out)), [Http (search_request tok track artist)])
           \<and> length out = length items
           \<and> (\<forall>i<length items. simplified_track_info (items ! i) = Some (out ! i))"
proof -
  from comprehension_exists [OF assms(6) track_info_entry_eq]
  obtain out where out: "comprehension track_info_entry items = Inr out"
    "length out = length items"
    "\<forall>i<length items. simplified_track_info (items ! i) = Some (out ! i)" by blast
  have "get_track_info http tok track artist =
          (Inr (Json (JList out)), [Http (search_request tok track artist)])"
    unfolding get_track_info_def Let_def
    using assms(1-3) field_Some_getitem [OF assms(4)] field_Some_getitem [OF assms(5)] out(1)
    by (simp add: response_json_def)
  with out(2,3) show ?thesis by blast
qed

lemma get_top_tracks_reshape:
  assumes "http (top_request ''https://api.spotify.com/v1/me/top/tracks'' tok limit time_range) = Inr resp"
    and "status_code resp = 200" and "json_body resp = Some body"
    and "field ''items'' body = Some (JList items)"
    and "\<forall>item\<in>set items. simplified_top_track item \<noteq> None"
  shows "\<exists>out. get_top_tracks http tok limit time_range =
                 (Inr (Json (JDict [(''top_tracks'', JList out)])),
                  [Http (top_request ''https://api.spotify.com/v1/me/top/tracks'' tok limit time_range)])
           \<and> length out = length items
           \<and> (\<forall>i<length items. simplified_top_track (items ! i) = Some (out ! i))"
proof -
  from comprehension_exists [OF assms(5) top_track_entry_eq]
  obtain out where out: "comprehension top_track_entry items = Inr out"
    "length out = length items"
    "\<forall>i<length items. simplified_top_track (items ! i) = Some (out ! i)" by blast
  have "get_top_tracks http tok limit time_range =
          (Inr (Json (JDict [(''top_tracks'', JList out)])),
           [Http (top_request ''https://api.spotify.com/v1/me/top/tracks'' tok limit time_range)])"
    unfolding get_top_tracks_def Let_def
    using assms(1-3) field_Some_getitem [OF assms(4)] out(1)
    by (simp add: response_json_def)
  with out(2,3) show ?thesis by blast
qed

lemma get_top_artists_reshape:
  assumes "http (top_request ''https://api.spotify.com/v1/me/top/artists'' tok limit time_range) = Inr resp"
    and "status_code resp = 200" and "json_body resp = Some body"
    and "field ''items'' body = Some (JList items)"
    and "\<forall>item\<in>set items. simplified_artist item \<noteq> None"
  shows "\<exists>out. get_top_artists http tok limit time_range =
                 (Inr (Json (JDict [(''top_artists'', JList out)])),
                  [Http (top_request ''https://api.spotify.com/v1/me/top/artists'' tok limit time_range)])
           \<and> length out = length items
           \<and> (\<forall>i<length items. simplified_artist (items ! i) = Some (out ! i))"
proof -
  from comprehension_exists [OF assms(5) top_artist_entry_eq]
  obtain out where out: "comprehension top_artist_entry items = Inr out"
    "length out = length items"
    "\<forall>i<length items. simplified_artist (items ! i) = Some (out ! i)" by blast
  have "get_top_artists http tok limit time_range =
          (Inr (Json (JDict [(''top_artists'', JList out)])),
           [Http (top_request ''https://api.spotify.com/v1/me/top/artists'' tok limit time_range)])"
    unfolding get_top_artists_def Let_def SPOTIFY_API_URL_def
    using assms(1-3) field_Some_getitem [OF assms(4)] out(1)
    by (simp add: response_json_def)
  with out(2,3) show ?thesis by blast
qed

lemma get_track_info_value:
  assumes "get_track_info http tok track artist = (Inr v, es)"
  shows "(\<exists>tracks. v = Json (JList tracks)) \<or> (\<exists>d s. v = Response d s)"
proof (cases "http (search_request tok track artist)")
  case (Inl e)
  with assms show ?thesis by (simp add: get_track_info_def)
next
  case (Inr resp)
  show ?thesis
  proof (cases "status_code resp = 200")
    case True
    with Inr assms show ?thesis
      by (auto simp: get_track_info_def Let_def bind_err_Inr)
  next
    case False
    with Inr assms show ?thesis by (auto simp: get_track_info_def Let_def)
  qed
qed

subsection \<open>Saving preferences\<close>

lemma dumps_list_Json: "dumps_list (map Json xs @ ys) = map_option (\<lambda>zs. xs @ zs) (dumps_list ys)"
  by (induction xs) (simp_all add: option.map_comp comp_def option.map_ident)

lemma dumps_appended:
  "dumps (PyList (map Json xs @ [PyDict [(key, v)]])) =
     map_option (\<lambda>j. JList (xs @ [JDict [(key, j)]])) (dumps v)"
  by (cases "dumps v") (simp_all add: dumps_list_Json)

lemma list_append_Inr:
  "list_append (Json p) x = Inr prefs \<longleftrightarrow> (\<exists>xs. p = JList xs \<and> prefs = PyList (map Json xs @ [x]))"
  by (cases p) auto

lemma finite_jsons_append: "finite_jsons (xs @ ys) = (finite_jsons xs \<and> finite_jsons ys)"
  by (induction xs) simp_all

lemma add_preferences_success:
  assumes user: "users w uid = Some u" and list: "preferences u = JList xs"
    and tok: "get_spotify_token fuel cfg ev w = Some (Inr tok, w1, es1)"
    and look: "get_track_info (requests ev) tok track artist = (Inr (Json (JList tracks)), es2)"
    and fin: "finite_jsons xs" "finite_jsons tracks"
  shows "add_preferences fuel cfg ev uid track artist w =
           Some (Inr (Response
                   (PyDict
                      [(''message'', Json (JStr ''Preferencias agregadas correctamente'')),
                       (''Usuario actualizado'',
                        PyDict [(''name'', Json (JStr (name u))),
                                (''email'', Json (JStr (email u))),
                                (''preferences'',
                                 PyList (map Json xs @ [PyDict [(''track_info'', Json (JList tracks))]]))])])
                   200),
                 w1\<lparr>users := (users w)(uid \<mapsto>
                    \<lparr>name = name u, email = email u,
                     preferences = JList (xs @ [JDict [(''track_info'', JList tracks)]])\<rparr>)\<rparr>,
                 es1 @ es2)"
proof -
  let ?prefs = "PyList (map Json xs @ [PyDict [(''track_info'', Json (JList tracks))]])"
  have u1: "users w1 = users w" using tok by (rule get_spotify_token_users)
  have app: "list_append (Json (preferences u)) (PyDict [(''track_info'', Json (JList tracks))]) = Inr ?prefs"
    using list by simp
  have d: "dumps ?prefs = Some (JList (xs @ [JDict [(''track_info'', JList tracks)]]))"
    unfolding dumps_appended by simp
  have f: "finite_json (JList (xs @ [JDict [(''track_info'', JList tracks)]]))"
    using fin by (simp add: finite_jsons_append)
  have sv: "save uid (name u) (email u) ?prefs w1 =
      Inr (w1\<lparr>users := (users w)(uid \<mapsto>
         \<lparr>name = name u, email = email u,
          preferences = JList (xs @ [JDict [(''track_info'', JList tracks)]])\<rparr>)\<rparr>)"
    unfolding save_def d using f by (simp add: u1)
  show ?thesis
    unfolding add_preferences_def using user tok look app sv
    by (simp add: HTTP_200_OK_def)
qed

lemma add_preferences_outcome:
  assumes user: "users w uid = Some u"
    and run: "add_preferences fuel cfg ev uid track artist w = Some (r, w', es)"
  shows "(isl r \<and> users w' = users w)
       \<or> (\<exists>tok w1 es1 es2 tracks xs.
             get_spotify_token fuel cfg ev w = Some (Inr tok, w1, es1)
           \<and> get_track_info (requests ev) tok track artist = (Inr (Json (JList tracks)), es2)
           \<and> preferences u = JList xs
           \<and> finite_jsons xs \<and> finite_jsons tracks
           \<and> es = es1 @ es2
           \<and> w' = w1\<lparr>users := (users w)(uid \<mapsto>
                 \<lparr>name = name u, email = email u,
                  preferences = JList (xs @ [JDict [(''track_info'', JList tracks)]])\<rparr>)\<rparr>
           \<and> r = Inr (Response
                  (PyDict
                     [(''message'', Json (JStr ''Preferencias agregadas correctamente'')),
                      (''Usuario actualizado'',
                       PyDict [(''name'', Json (JStr (name u))),
                               (''email'', Json (JStr (email u))),
                               (''preferences'',
                                PyList (map Json xs @ [PyDict [(''track_info'', Json (JList tracks))]]))])])
                  200))"
proof -
  from run user obtain tr w1 es1 where tok: "get_spotify_token fuel cfg ev w = Some (tr, w1, es1)"
    by (cases "get_spotify_token fuel cfg ev w") (auto simp: add_preferences_def)
  have u1: "users w1 = users w" using tok by (rule get_spotify_token_users)
  show ?thesis
  proof (cases tr)
    case (Inl e)
    with run user tok have "r = Inl e \<and> w' = w1"
      by (simp add: add_preferences_def)
    with u1 have "isl r \<and> users w' = users w"
      by simp
    then show ?thesis by (rule disjI1)
  next
    case (Inr access_token)
    obtain ti es2 where look: "get_track_info (requests ev) access_token track artist = (ti, es2)"
      by (cases "get_track_info (requests ev) access_token track artist")
    show ?thesis
    proof (cases ti)
      case (Inl e)
      with run user tok Inr look have "r = Inl e \<and> w' = w1"
        by (simp add: add_preferences_def)
      with u1 have "isl r \<and> users w' = users w"
        by simp
      then show ?thesis by (rule disjI1)
    next
      case info: (Inr track_info)
      show ?thesis
      proof (cases "list_append (Json (preferences u)) (PyDict [(''track_info'', track_info)])")
        case (Inl e)
        with run user tok Inr look info have "r = Inl e \<and> w' = w1"
          by (simp add: add_preferences_def)
        with u1 have "isl r \<and> users w' = users w"
          by simp
        then show ?thesis by (rule disjI1)
      next
        case app: (Inr prefs)
        then obtain xs where xs: "preferences u = JList xs"
          "prefs = PyList (map Json xs @ [PyDict [(''track_info'', track_info)]])"
          by (auto simp: list_append_Inr)
        from get_track_info_value look info
        consider (data) tracks where "track_info = Json (JList tracks)"
          | (resp) d s where "track_info = Response d s" by blast
        then show ?thesis
        proof cases
          case resp
          then have "dumps prefs = None"
            unfolding xs(2) dumps_appended by simp
          then have sv: "save uid (name u) (email u) prefs w1 = Inl TypeError"
            by (simp add: save_def)
          from sv run user tok Inr look info app have "r = Inl TypeError \<and> w' = w1"
            by (simp add: add_preferences_def)
          with u1 have "isl r \<and> users w' = users w"
            by simp
          then show ?thesis by (rule disjI1)
        next
          case data
          show ?thesis
          proof (cases "finite_jsons xs \<and> finite_jsons tracks")
            case True
            from add_preferences_success [OF user xs(1) tok [unfolded Inr]
                   look [unfolded info data]] True run
            have "r = Inr (Response
                  (PyDict
                     [(''message'', Json (JStr ''Preferencias agregadas correctamente'')),
                      (''Usuario actualizado'',
                       PyDict [(''name'', Json (JStr (name u))),
                               (''email'', Json (JStr (email u))),
                               (''preferences'',
                                PyList (map Json xs @ [PyDict [(''track_info'', Json (JList tracks))]]))])])
                  200)
              \<and> w' = w1\<lparr>users := (users w)(uid \<mapsto>
                 \<lparr>name = name u, email = email u,
                  preferences = JList (xs @ [JDict [(''track_info'', JList tracks)]])\<rparr>)\<rparr>
              \<and> es = es1 @ es2"
              by simp
            with tok Inr look info data xs(1) True show ?thesis by blast
          next
            case False
            from data have "dumps prefs = Some (JList (xs @ [JDict [(''track_info'', JList tracks)]]))"
              unfolding xs(2) dumps_appended by simp
            with False have sv: "save uid (name u) (email u) prefs w1 = Inl DatabaseError"
              by (auto simp: save_def finite_jsons_append)
            from sv run user tok Inr look info app have "r = Inl DatabaseError \<and> w' = w1"
              by (simp add: add_preferences_def)
            with u1 have "isl r \<and> users w' = users w"
              by simp
            then show ?thesis by (rule disjI1)
          qed
        qed
      qed
    qed
  qed
qed

subsection \<open>The sample inputs\<close>

lemma sample_user_7:
  "users signed_in_world 7 = Some \<lparr>name = ''Ana'', email = ''ana@example.org'', preferences = JList []\<rparr>"
  by (simp add: signed_in_world_def sample_users_def User_init_def)

lemma sample_user_8:
  "users signed_in_world 8 = Some \<lparr>name = ''Luis'', email = ''luis@example.org'', preferences = JNull\<rparr>"
  by (simp add: signed_in_world_def sample_users_def User_init_def)

lemma sample_user_9:
  "users signed_in_world 9 =
     Some \<lparr>name = ''Eva'', email = ''eva@example.org'',
           preferences = JList [JDict [(''track_info'', JList [])], JStr ''older entry'']\<rparr>"
  by (simp add: signed_in_world_def sample_users_def User_init_def)

lemma sample_token:
  "get_spotify_token fuel sample_config ev signed_in_world =
     Some (Inr (Json (JStr ''BQDtoken'')), signed_in_world, [])"
  by (simp add: get_spotify_token_def read_access_token_def signed_in_world_def sample_tokens_def)

lemma sample_search_denied:
  "get_track_info spotify_denies tok ''Yellow'' ''Coldplay'' =
     (Inr (Response (Json (JDict [(''error'', JStr ''Error al obtener las canciones.'')])) 400),
      [Http (search_request tok ''Yellow'' ''Coldplay'')])"
  by (simp add: get_track_info_def spotify_denies_def HTTP_400_BAD_REQUEST_def)

lemma finite_yellow: "finite_json yellow"
  by (simp add: yellow_def)

lemma sample_track_entry: "track_info_entry sample_track = Inr yellow"
  by (simp add: track_info_entry_def sample_track_def yellow_def)

lemma sample_search_up:
  "get_track_info spotify_up tok ''Yellow'' ''Coldplay'' =
     (Inr (Json (JList [yellow])), [Http (search_request tok ''Yellow'' ''Coldplay'')])"
  by (simp add: get_track_info_def spotify_up_def search_request_def response_json_def
        sample_track_entry)

lemma sample_add_denied:
  "add_preferences fuel sample_config (quiet_env spotify_denies) 7 ''Yellow'' ''Coldplay'' signed_in_world =
     Some (Inl TypeError, signed_in_world,
           [Http (search_request (Json (JStr ''BQDtoken'')) ''Yellow'' ''Coldplay'')])"
  by (simp add: add_preferences_def sample_user_7 sample_token quiet_env_def sample_search_denied
        save_def)

lemma sample_add_up:
  "add_preferences fuel sample_config (quiet_env spotify_up) 7 ''Yellow'' ''Coldplay'' signed_in_world =
     Some (Inr (Response
             (PyDict
                [(''message'', Json (JStr ''Preferencias agregadas correctamente'')),
                 (''Usuario actualizado'',
                  PyDict [(''name'', Json (JStr ''Ana'')),
                          (''email'', Json (JStr ''ana@example.org'')),
                          (''preferences'', PyList [PyDict [(''track_info'', Json (JList [yellow]))]])])])
             200),
           signed_in_world\<lparr>users := (users signed_in_world)(7 \<mapsto>
              \<lparr>name = ''Ana'', email = ''ana@example.org'',
               preferences = JList [JDict [(''track_info'', JList [yellow])]]\<rparr>)\<rparr>,
           [Http (search_request (Json (JStr ''BQDtoken'')) ''Yellow'' ''Coldplay'')])"
  by (simp add: add_preferences_def sample_user_7 sample_token quiet_env_def sample_search_up
        save_def HTTP_200_OK_def finite_yellow)

lemma sample_add_null:
  "add_preferences fuel sample_config (quiet_env spotify_up) 8 ''Yellow'' ''Coldplay'' signed_in_world =
     Some (Inl AttributeError, signed_in_world,
           [Http (search_request (Json (JStr ''BQDtoken'')) ''Yellow'' ''Coldplay'')])"
  by (simp add: add_preferences_def sample_user_8 sample_token quiet_env_def sample_search_up)

lemma sample_callback:
  "callback sample_config spotify_up code fresh_world =
     (Inr (Response (Json (JDict sample_tokens)) 200), signed_in_world,
      [Http (token_request sample_config code)])"
  by (simp add: callback_def token_request_def spotify_up_def response_json_def token_entry_def
        fresh_world_def signed_in_world_def sample_tokens_def HTTP_200_OK_def)

lemma sample_world_at:
  "world_at sample_config login_env fresh_world 0 = fresh_world"
  "world_at sample_config login_env fresh_world (Suc 0) = fresh_world"
  "world_at sample_config login_env fresh_world (Suc (Suc 0)) = signed_in_world"
  by (simp_all add: deliver_def login_env_def sample_callback)

lemma sample_elapsed:
  "elapsed login_env 0 = 1" "elapsed login_env (Suc 0) = 2"
  by (simp_all add: elapsed_def login_env_def)

lemma sample_stores:
  "spotify_tokens fresh_world = []" "spotify_tokens signed_in_world \<noteq> []"
  "map_of (spotify_tokens signed_in_world) ''access_token'' = Some (JStr ''BQDtoken'')"
  by (simp_all add: fresh_world_def signed_in_world_def sample_tokens_def)

lemma sample_login_run:
  "get_spotify_token 3 sample_config login_env fresh_world =
     Some (Inr (Json (JStr ''BQDtoken'')), signed_in_world,
           [BrowserOpen (map_of (spotify_auth sample_config) ''auth_url''), Sleep 1, Sleep 1])"
proof -
  have before: "\<forall>j. 0 \<le> j \<and> j < Suc (Suc 0) \<longrightarrow>
      spotify_tokens (world_at sample_config login_env fresh_world j) = []
      \<and> \<not> elapsed login_env j > 120"
    by (auto simp del: world_at.simps
          simp add: less_Suc_eq sample_world_at sample_elapsed sample_stores)
  have "wait_loop 3 sample_config login_env (clock login_env 0) 0
          (world_at sample_config login_env fresh_world 0) =
        Some (None, signed_in_world, replicate (Suc (Suc 0) - 0) (Sleep 1))"
    using wait_loop_first [OF before, of 3]
    by (simp del: world_at.simps add: sample_world_at sample_stores)
  moreover have "read_access_token signed_in_world = Inr (Json (JStr ''BQDtoken''))"
    by (simp add: read_access_token_def sample_stores)
  ultimately show ?thesis
    by (simp add: get_spotify_token_def sample_stores)
qed

lemma sample_simplified:
  "simplified_track_info sample_track \<noteq> None"
  "simplified_top_track sample_track \<noteq> None"
  "simplified_artist sample_artist \<noteq> None"
  by (simp_all add: simplified_track_info_def simplified_top_track_def simplified_artist_def
        field_def first_listed_def sample_track_def sample_artist_def)

section \<open>The claims\<close>

subsection \<open>C1: preferences accumulate\<close>

text \<open>
  Claim C1 says that every call of \<open>add_preferences\<close> on an existing user whose
  \<open>preferences\<close> is a list leaves that list with exactly one dictionary appended. It
  does not hold for every call. User 7 exists and has the empty list. The token store is
  populated and the third party answers the track search with status 401, so
  \<open>get_track_info\<close> returns a \<open>Response\<close> object in place of data;
  \<open>add_preferences\<close> appends it to the list of the instance in memory, and \<open>save\<close>
  cannot serialize it. The call ends in a TypeError and the stored list is still empty.
\<close>

theorem add_preferences_failed_lookup_counterexample:
  "map_option preferences (users signed_in_world 7) = Some (JList [])
   \<and> add_preferences 0 sample_config (quiet_env spotify_denies) 7 ''Yellow'' ''Coldplay'' signed_in_world =
       Some (Inl TypeError, signed_in_world,
             [Http (search_request (Json (JStr ''BQDtoken'')) ''Yellow'' ''Coldplay'')])"
  by (simp add: sample_user_7 sample_add_denied)

text \<open>
  Claim C1 as amended. Take a call of \<open>add_preferences\<close> on an existing user whose
  \<open>preferences\<close> is a list \<open>xs\<close>. When \<open>get_spotify_token\<close> returns a value,
  \<open>get_track_info\<close> returns a list for it, and neither that list nor \<open>xs\<close> holds
  a float that is infinite or not a number, the call returns its 200 response, and the
  table afterwards holds for the user the list \<open>xs\<close> with exactly one dictionary
  appended, which holds the returned list under \<open>track_info\<close>. And after every call
  that ends, however it ends, the stored list is \<open>xs\<close> followed by at most one
  entry: it never shrinks and its earlier entries are unchanged. Applied to one request
  after the other, the records accumulate.
\<close>

theorem add_preferences_appends_one:
  assumes "users w uid = Some u" and "preferences u = JList xs"
  shows "(get_spotify_token fuel cfg ev w = Some (Inr tok, w1, es1)
            \<and> get_track_info (requests ev) tok track artist = (Inr (Json (JList tracks)), es2)
            \<and> finite_json (JList xs) \<and> finite_json (JList tracks) \<longrightarrow>
          add_preferences fuel cfg ev uid track artist w =
            Some (Inr (Response
                    (PyDict
                       [(''message'', Json (JStr ''Preferencias agregadas correctamente'')),
                        (''Usuario actualizado'',
                         PyDict [(''name'', Json (JStr (name u))),
                                 (''email'', Json (JStr (email u))),
                                 (''preferences'',
                                  PyList (map Json xs @ [PyDict [(''track_info'', Json (JList tracks))]]))])])
                    200),
                  w1\<lparr>users := (users w)(uid \<mapsto>
                     \<lparr>name = name u, email = email u,
                      preferences = JList (xs @ [JDict [(''track_info'', JList tracks)]])\<rparr>)\<rparr>,
                  es1 @ es2))
       \<and> (add_preferences fuel cfg ev uid track artist w = Some (r, w', es) \<longrightarrow>
            (\<exists>u' ys. users w' uid = Some u' \<and> preferences u' = JList (xs @ ys) \<and> length ys \<le> 1))"
proof (rule conjI)
  show "get_spotify_token fuel cfg ev w = Some (Inr tok, w1, es1)
            \<and> get_track_info (requests ev) tok track artist = (Inr (Json (JList tracks)), es2)
            \<and> finite_json (JList xs) \<and> finite_json (JList tracks) \<longrightarrow>
          add_preferences fuel cfg ev uid track artist w =
            Some (Inr (Response
                    (PyDict
                       [(''message'', Json (JStr ''Preferencias agregadas correctamente'')),
                        (''Usuario actualizado'',
                         PyDict [(''name'', Json (JStr (name u))),
                                 (''email'', Json (JStr (email u))),
                                 (''preferences'',
                                  PyList (map Json xs @ [PyDict [(''track_info'', Json (JList tracks))]]))])])
                    200),
                  w1\<lparr>users := (users w)(uid \<mapsto>
                     \<lparr>name = name u, email = email u,
                      preferences = JList (xs @ [JDict [(''track_info'', JList tracks)]])\<rparr>)\<rparr>,
                  es1 @ es2)"
    using add_preferences_success [OF assms, of fuel cfg ev tok w1 es1 track artist tracks es2]
    by simp
next
  show "add_preferences fuel cfg ev uid track artist w = Some (r, w', es) \<longrightarrow>
            (\<exists>u' ys. users w' uid = Some u' \<and> preferences u' = JList (xs @ ys) \<and> length ys \<le> 1)"
  proof (rule impI)
    assume run: "add_preferences fuel cfg ev uid track artist w = Some (r, w', es)"
    from add_preferences_outcome [OF assms(1) run]
    show "\<exists>u' ys. users w' uid = Some u' \<and> preferences u' = JList (xs @ ys) \<and> length ys \<le> 1"
    proof
      assume "isl r \<and> users w' = users w"
      with assms have "users w' uid = Some u \<and> preferences u = JList (xs @ [])
                         \<and> length ([]::json list) \<le> 1"
        by simp
      then show ?thesis by blast
    next
      assume "\<exists>tok w1 es1 es2 tracks xs.
             get_spotify_token fuel cfg ev w = Some (Inr tok, w1, es1)
           \<and> get_track_info (requests ev) tok track artist = (Inr (Json (JList tracks)), es2)
           \<and> preferences u = JList xs
           \<and> finite_jsons xs \<and> finite_jsons tracks
           \<and> es = es1 @ es2
           \<and> w' = w1\<lparr>users := (users w)(uid \<mapsto>
                 \<lparr>name = name u, email = email u,
                  preferences = JList (xs @ [JDict [(''track_info'', JList tracks)]])\<rparr>)\<rparr>
           \<and> r = Inr (Response
                  (PyDict
                     [(''message'', Json (JStr ''Preferencias agregadas correctamente'')),
                      (''Usuario actualizado'',
                       PyDict [(''name'', Json (JStr (name u))),
                               (''email'', Json (JStr (email u))),
                               (''preferences'',
                                PyList (map Json xs @ [PyDict [(''track_info'', Json (JList tracks))]]))])])
                  200)"
      then obtain w1 tracks ys where ok:
        "preferences u = JList ys"
        "w' = w1\<lparr>users := (users w)(uid \<mapsto>
                 \<lparr>name = name u, email = email u,
                  preferences = JList (ys @ [JDict [(''track_info'', JList tracks)]])\<rparr>)\<rparr>"
        by blast
      from ok(1) assms(2) have ys: "ys = xs" by simp
      let ?u' = "\<lparr>name = name u, email = email u,
                  preferences = JList (xs @ [JDict [(''track_info'', JList tracks)]])\<rparr>"
      have "users w' uid = Some ?u'
              \<and> preferences ?u' = JList (xs @ [JDict [(''track_info'', JList tracks)]])
              \<and> length [JDict [(''track_info'', JList tracks)]] \<le> 1"
        using ok(2) ys by simp
      then show ?thesis by blast
    qed
  qed
qed

text \<open>
  Claim C1, instance: user 9, who has two earlier entries, with a populated token store
  and a third party that answers the search with one track. \<open>add_preferences\<close>
  returns its 200 response and the stored list is the two earlier entries followed by
  the entry for that track.
\<close>

theorem add_preferences_appends_one_witness:
  "users signed_in_world 9 =
     Some \<lparr>name = ''Eva'', email = ''eva@example.org'',
           preferences = JList [JDict [(''track_info'', JList [])], JStr ''older entry'']\<rparr>
   \<and> add_preferences 0 sample_config (quiet_env spotify_up) 9 ''Yellow'' ''Coldplay'' signed_in_world =
       Some (Inr (Response
               (PyDict
                  [(''message'', Json (JStr ''Preferencias agregadas correctamente'')),
                   (''Usuario actualizado'',
                    PyDict [(''name'', Json (JStr ''Eva'')),
                            (''email'', Json (JStr ''eva@example.org'')),
                            (''preferences'',
                             PyList [Json (JDict [(''track_info'', JList [])]),
                                     Json (JStr ''older entry''),
                                     PyDict [(''track_info'', Json (JList [yellow]))]])])])
               200),
             signed_in_world\<lparr>users := (users signed_in_world)(9 \<mapsto>
                \<lparr>name = ''Eva'', email = ''eva@example.org'',
                 preferences = JList [JDict [(''track_info'', JList [])], JStr ''older entry'',
                                      JDict [(''track_info'', JList [yellow])]]\<rparr>)\<rparr>,
             [Http (search_request (Json (JStr ''BQDtoken'')) ''Yellow'' ''Coldplay'')])
   \<and> (\<exists>u' ys. users (signed_in_world\<lparr>users := (users signed_in_world)(9 \<mapsto>
                \<lparr>name = ''Eva'', email = ''eva@example.org'',
                 preferences = JList [JDict [(''track_info'', JList [])], JStr ''older entry'',
                                      JDict [(''track_info'', JList [yellow])]]\<rparr>)\<rparr>) 9 = Some u'
          \<and> preferences u' = JList ([JDict [(''track_info'', JList [])], JStr ''older entry''] @ ys)
          \<and> length ys \<le> 1)"
proof -
  have run: "add_preferences 0 sample_config (quiet_env spotify_up) 9 ''Yellow'' ''Coldplay'' signed_in_world =
       Some (Inr (Response
               (PyDict
                  [(''message'', Json (JStr ''Preferencias agregadas correctamente'')),
                   (''Usuario actualizado'',
                    PyDict [(''name'', Json (JStr ''Eva'')),
                            (''email'', Json (JStr ''eva@example.org'')),
                            (''preferences'',
                             PyList [Json (JDict [(''track_info'', JList [])]),
                                     Json (JStr ''older entry''),
                                     PyDict [(''track_info'', Json (JList [yellow]))]])])])
               200),
             signed_in_world\<lparr>users := (users signed_in_world)(9 \<mapsto>
                \<lparr>name = ''Eva'', email = ''eva@example.org'',
                 preferences = JList [JDict [(''track_info'', JList [])], JStr ''older entry'',
                                      JDict [(''track_info'', JList [yellow])]]\<rparr>)\<rparr>,
             [Http (search_request (Json (JStr ''BQDtoken'')) ''Yellow'' ''Coldplay'')])"
    using add_preferences_appends_one
            [OF sample_user_9, where xs = "[JDict [(''track_info'', JList [])], JStr ''older entry'']"
               and fuel = 0 and cfg = sample_config and ev = "quiet_env spotify_up"
               and tok = "Json (JStr ''BQDtoken'')" and ?w1.0 = signed_in_world and ?es1.0 = "[]"
               and track = "''Yellow''" and artist = "''Coldplay''" and tracks = "[yellow]"
               and ?es2.0 = "[Http (search_request (Json (JStr ''BQDtoken'')) ''Yellow'' ''Coldplay'')]"]
          sample_token [of 0 "quiet_env spotify_up"]
          sample_search_up [of "Json (JStr ''BQDtoken'')"]
    by (simp add: quiet_env_def finite_yellow)
  from run sample_user_9
    add_preferences_appends_one
            [OF sample_user_9, where xs = "[JDict [(''track_info'', JList [])], JStr ''older entry'']"
               and fuel = 0 and cfg = sample_config and ev = "quiet_env spotify_up"
               and track = "''Yellow''" and artist = "''Coldplay''",
             THEN conjunct2, rule_format, OF _ run]
  show ?thesis by simp
qed

subsection \<open>C2: failures and HTTP 4xx\<close>

text \<open>
  Claim C2 says that every operation answers a failed third-party call with an HTTP 4xx
  response and never with an uncaught exception. \<open>get_top_tracks\<close> builds the 400
  response, as \<open>get_top_artists\<close> does, but raises it where \<open>get_top_artists\<close>
  returns it; the \<open>raise\<close> of an object that is no exception is a TypeError.
  Evaluated: with a populated token store and a third party that answers the top-tracks
  request with status 401, \<open>get_user_info\<close> ends in a TypeError after that one
  request and returns no response.
\<close>

theorem get_user_info_failed_top_tracks:
  "get_user_info 0 sample_config (quiet_env spotify_denies) signed_in_world =
     Some (Inl TypeError, signed_in_world,
           [Http (Get ''https://api.spotify.com/v1/me/top/tracks'' (Json (JStr ''BQDtoken''))
                    [(''limit'', JInt 10), (''time_range'', JStr ''medium_term'')])])"
  by (simp add: get_user_info_def sample_token get_top_tracks_def top_request_def quiet_env_def
        spotify_denies_def)

subsection \<open>C3: the token wait terminates\<close>

text \<open>
  Claim C3. Let the token store be empty, let the clock behave as sleeping says (the
  first reading in the loop is not before \<open>start_time\<close>, and each reading after a
  \<open>sleep(1)\<close> is at least one second after the reading before it), and let the
  rounding of the float subtraction be monotone and leave 121 as it is. Then
  \<open>get_spotify_token\<close> returns within 122 checks. It returns at the first check
  \<open>n\<close>, at most 121, at which the store is populated or the computed elapsed time
  exceeds 120: at every check before, the store was empty and the elapsed time at most
  120. It has opened the browser once and then slept \<open>n\<close> times, one second each.
  When the callbacks that arrived have populated the store by test \<open>n\<close>, it returns
  the access token of that store, and the state is the one those callbacks left.
  Otherwise it returns the timeout response, whose status is 408.
\<close>

theorem token_wait_terminates:
  assumes empty: "spotify_tokens w = []"
    and first: "clock ev 0 \<le> clock ev 1"
    and sleep: "\<forall>k. clock ev (Suc k) + 1 \<le> clock ev (Suc (Suc k))"
    and mono: "mono (rounded ev)"
    and exact: "rounded ev 121 = 121"
    and fuel: "122 \<le> fuel"
  shows "\<exists>n\<le>121.
           (\<forall>j<n. spotify_tokens (world_at cfg ev w j) = [] \<and> elapsed ev j \<le> 120)
         \<and> (if spotify_tokens (world_at cfg ev w n) \<noteq> [] then
               \<exists>t. map_of (spotify_tokens (world_at cfg ev w n)) ''access_token'' = Some t
                 \<and> get_spotify_token fuel cfg ev w =
                     Some (Inr (Json t), world_at cfg ev w n,
                           BrowserOpen (map_of (spotify_auth cfg) ''auth_url'')
                           # replicate n (Sleep 1))
             else
               elapsed ev n > 120
               \<and> get_spotify_token fuel cfg ev w =
                   Some (Inr timeout_response,
                         deliver cfg (arrivals ev (Testing n)) (world_at cfg ev w n),
                         BrowserOpen (map_of (spotify_auth cfg) ''auth_url'')
                         # replicate n (Sleep 1)))
         \<and> (\<exists>payload. timeout_response = Response payload 408)"
proof -
  let ?P = "\<lambda>n. spotify_tokens (world_at cfg ev w n) \<noteq> [] \<or> elapsed ev n > 120"
  have "?P 121" using steady_elapsed [OF first sleep mono exact] by simp
  from first_check [of ?P, OF this] obtain n where n: "n \<le> 121" "?P n" "\<forall>j<n. \<not> ?P j"
    by blast
  from n(3) have before: "\<forall>j<n. spotify_tokens (world_at cfg ev w j) = [] \<and> elapsed ev j \<le> 120"
    by (simp add: not_less)
  have before': "\<forall>j. 0 \<le> j \<and> j < n \<longrightarrow>
       spotify_tokens (world_at cfg ev w j) = [] \<and> \<not> elapsed ev j > 120"
    using n(3) by simp
  have "n - 0 < fuel" using n(1) fuel by simp
  from wait_loop_first [OF before' _ this n(2)]
  have loop: "wait_loop fuel cfg ev (clock ev 0) 0 (deliver cfg (arrivals ev Opening) w) =
           Some (if spotify_tokens (world_at cfg ev w n) \<noteq> [] then
                   (None, world_at cfg ev w n, replicate n (Sleep 1))
                 else
                   (Some timeout_response,
                    deliver cfg (arrivals ev (Testing n)) (world_at cfg ev w n),
                    replicate n (Sleep 1)))"
    by simp
  have status: "\<exists>payload. timeout_response = Response payload 408"
    by (simp add: timeout_response_def HTTP_408_REQUEST_TIMEOUT_def)
  have outcome: "if spotify_tokens (world_at cfg ev w n) \<noteq> [] then
               \<exists>t. map_of (spotify_tokens (world_at cfg ev w n)) ''access_token'' = Some t
                 \<and> get_spotify_token fuel cfg ev w =
                     Some (Inr (Json t), world_at cfg ev w n,
                           BrowserOpen (map_of (spotify_auth cfg) ''auth_url'')
                           # replicate n (Sleep 1))
             else
               elapsed ev n > 120
               \<and> get_spotify_token fuel cfg ev w =
                   Some (Inr timeout_response,
                         deliver cfg (arrivals ev (Testing n)) (world_at cfg ev w n),
                         BrowserOpen (map_of (spotify_auth cfg) ''auth_url'')
                         # replicate n (Sleep 1))"
  proof (cases "spotify_tokens (world_at cfg ev w n) \<noteq> []")
    case True
    from read_access_token_inv [OF world_at_inv [OF empty] True]
    obtain t where t: "read_access_token (world_at cfg ev w n) = Inr (Json t)"
      "map_of (spotify_tokens (world_at cfg ev w n)) ''access_token'' = Some t" by blast
    have "get_spotify_token fuel cfg ev w =
            Some (Inr (Json t), world_at cfg ev w n,
                  BrowserOpen (map_of (spotify_auth cfg) ''auth_url'') # replicate n (Sleep 1))"
      unfolding get_spotify_token_def Let_def using empty loop True t(1) by simp
    with t(2) True show ?thesis by simp
  next
    case False
    with n(2) have late: "elapsed ev n > 120" by simp
    have "get_spotify_token fuel cfg ev w =
            Some (Inr timeout_response,
                  deliver cfg (arrivals ev (Testing n)) (world_at cfg ev w n),
                  BrowserOpen (map_of (spotify_auth cfg) ''auth_url'') # replicate n (Sleep 1))"
      unfolding get_spotify_token_def Let_def using empty loop False by simp
    with late False show ?thesis by simp
  qed
  from n(1) before outcome status show ?thesis by blast
qed

text \<open>
  Claim C3, instance: an empty store, a clock that advances one second per reading and
  a callback that arrives during the second sleep. The store is empty at tests 0 and 1
  and populated at test 2, so the call returns the token of that callback after two
  sleeps.
\<close>

theorem token_wait_terminates_witness:
  "spotify_tokens fresh_world = []
   \<and> clock login_env 0 \<le> clock login_env 1
   \<and> (\<forall>k. clock login_env (Suc k) + 1 \<le> clock login_env (Suc (Suc k)))
   \<and> mono (rounded login_env) \<and> rounded login_env 121 = 121
   \<and> spotify_tokens (world_at sample_config login_env fresh_world 0) = []
   \<and> elapsed login_env 0 \<le> 120
   \<and> spotify_tokens (world_at sample_config login_env fresh_world 1) = []
   \<and> elapsed login_env 1 \<le> 120
   \<and> world_at sample_config login_env fresh_world 2 = signed_in_world
   \<and> get_spotify_token 122 sample_config login_env fresh_world =
       Some (Inr (Json (JStr ''BQDtoken'')), signed_in_world,
             [BrowserOpen (map_of (spotify_auth sample_config) ''auth_url''), Sleep 1, Sleep 1])"
proof -
  have h1: "spotify_tokens fresh_world = []" by (simp add: fresh_world_def)
  have h2: "clock login_env 0 \<le> clock login_env 1" by (simp add: login_env_def)
  have h3: "\<forall>k. clock login_env (Suc k) + 1 \<le> clock login_env (Suc (Suc k))"
    by (simp add: login_env_def)
  have h4: "mono (rounded login_env)" by (simp add: login_env_def mono_def)
  have h5: "rounded login_env 121 = 121" by (simp add: login_env_def)
  have h6: "(122::nat) \<le> 122" by simp
  have at2: "world_at sample_config login_env fresh_world 2 = signed_in_world"
    using sample_world_at(3) by (simp del: world_at.simps add: numeral_2_eq_2)
  have early: "spotify_tokens (world_at sample_config login_env fresh_world 0) = []
      \<and> elapsed login_env 0 \<le> 120
      \<and> spotify_tokens (world_at sample_config login_env fresh_world 1) = []
      \<and> elapsed login_env 1 \<le> 120"
    using sample_world_at(1,2) sample_elapsed sample_stores(1)
    by (simp del: world_at.simps)
  from token_wait_terminates [OF h1 h2 h3 h4 h5 h6, of sample_config]
  obtain n where n:
    "\<forall>j<n. spotify_tokens (world_at sample_config login_env fresh_world j) = []
           \<and> elapsed login_env j \<le> 120"
    "if spotify_tokens (world_at sample_config login_env fresh_world n) \<noteq> [] then
       \<exists>t. map_of (spotify_tokens (world_at sample_config login_env fresh_world n)) ''access_token'' = Some t
         \<and> get_spotify_token 122 sample_config login_env fresh_world =
             Some (Inr (Json t), world_at sample_config login_env fresh_world n,
                   BrowserOpen (map_of (spotify_auth sample_config) ''auth_url'')
                   # replicate n (Sleep 1))
     else
       elapsed login_env n > 120
       \<and> get_spotify_token 122 sample_config login_env fresh_world =
           Some (Inr timeout_response,
                 deliver sample_config (arrivals login_env (Testing n))
                   (world_at sample_config login_env fresh_world n),
                 BrowserOpen (map_of (spotify_auth sample_config) ''auth_url'')
                 # replicate n (Sleep 1))"
    by blast
  have "\<not> 2 < n"
  proof
    assume "2 < n"
    with n(1) have "spotify_tokens (world_at sample_config login_env fresh_world 2) = []"
      by blast
    with at2 sample_stores(2) show False by simp
  qed
  moreover have "n \<noteq> 0"
  proof
    assume "n = 0"
    with n(2) show False
      by (simp del: world_at.simps add: sample_world_at sample_stores sample_elapsed)
  qed
  moreover have "n \<noteq> Suc 0"
  proof
    assume "n = Suc 0"
    with n(2) show False
      by (simp del: world_at.simps add: sample_world_at sample_stores sample_elapsed)
  qed
  ultimately have "n = 2" by arith
  with n(2) at2 have "get_spotify_token 122 sample_config login_env fresh_world =
       Some (Inr (Json (JStr ''BQDtoken'')), signed_in_world,
             [BrowserOpen (map_of (spotify_auth sample_config) ''auth_url''), Sleep 1, Sleep 1])"
    by (simp del: world_at.simps add: sample_stores numeral_2_eq_2)
  with h1 h2 h3 h4 h5 early at2 show ?thesis by simp
qed

subsection \<open>C4: the token exchange\<close>

text \<open>
  Claim C4. Let the third party answer the POST of the callback. The callback sends
  exactly that one request: a POST to the token URL whose form carries the grant type
  \<open>authorization_code\<close> and the \<open>code\<close> of the query. When the answer has status
  200 and its body is a JSON object with an access token and an expiry time, the
  callback stores, and returns with status 200, the dictionary of the access token, the
  refresh token (\<open>None\<close> when the body has none) and the expiry time. When the answer
  has any other status, it returns the error message with status 400 and stores nothing.
\<close>

theorem callback_exchange:
  assumes "http (token_request cfg code) = Inr resp"
  shows "(status_code resp = 200 \<and> json_body resp = Some token_data
            \<and> field ''access_token'' token_data = Some a
            \<and> field ''expires_in'' token_data = Some e \<longrightarrow>
          callback cfg http code w =
            (Inr (Response
                    (Json (JDict [(''access_token'', a),
                                  (''refresh_token'',
                                   case field ''refresh_token'' token_data of
                                     None \<Rightarrow> JNull | Some r \<Rightarrow> r),
                                  (''expires_in'', e)]))
                    200),
             w\<lparr>spotify_tokens :=
                 [(''access_token'', a),
                  (''refresh_token'',
                   case field ''refresh_token'' token_data of None \<Rightarrow> JNull | Some r \<Rightarrow> r),
                  (''expires_in'', e)]\<rparr>,
             [Http (token_request cfg code)]))
       \<and> (status_code resp \<noteq> 200 \<longrightarrow>
          callback cfg http code w =
            (Inr (Response (Json (JDict [(''error'', JStr ''Error al obtener el token de acceso.'')])) 400),
             w, [Http (token_request cfg code)]))
       \<and> (\<exists>headers form. token_request cfg code =
              Post ''https://accounts.spotify.com/api/token'' headers form
            \<and> map_of form ''grant_type'' = Some (Some ''authorization_code'')
            \<and> map_of form ''code'' = Some code)"
proof (intro conjI impI)
  assume ok200: "status_code resp = 200 \<and> json_body resp = Some token_data
            \<and> field ''access_token'' token_data = Some a
            \<and> field ''expires_in'' token_data = Some e"
  then obtain kvs where kvs: "token_data = JDict kvs"
    by (cases token_data) (simp_all add: field_def)
  with ok200 have "token_entry token_data =
      Inr [(''access_token'', a),
           (''refresh_token'', case field ''refresh_token'' token_data of None \<Rightarrow> JNull | Some r \<Rightarrow> r),
           (''expires_in'', e)]"
    by (simp add: token_entry_def field_def split: option.splits)
  with ok200 assms show "callback cfg http code w =
            (Inr (Response
                    (Json (JDict [(''access_token'', a),
                                  (''refresh_token'',
                                   case field ''refresh_token'' token_data of
                                     None \<Rightarrow> JNull | Some r \<Rightarrow> r),
                                  (''expires_in'', e)]))
                    200),
             w\<lparr>spotify_tokens :=
                 [(''access_token'', a),
                  (''refresh_token'',
                   case field ''refresh_token'' token_data of None \<Rightarrow> JNull | Some r \<Rightarrow> r),
                  (''expires_in'', e)]\<rparr>,
             [Http (token_request cfg code)])"
    by (simp add: callback_def Let_def response_json_def HTTP_200_OK_def)
next
  assume "status_code resp \<noteq> 200"
  with assms show "callback cfg http code w =
            (Inr (Response (Json (JDict [(''error'', JStr ''Error al obtener el token de acceso.'')])) 400),
             w, [Http (token_request cfg code)])"
    by (simp add: callback_def Let_def HTTP_400_BAD_REQUEST_def)
next
  show "\<exists>headers form. token_request cfg code =
              Post ''https://accounts.spotify.com/api/token'' headers form
            \<and> map_of form ''grant_type'' = Some (Some ''authorization_code'')
            \<and> map_of form ''code'' = Some code"
    by (simp add: token_request_def SPOTIFY_TOKEN_URL_def)
qed

text \<open>
  Claim C4, instances: a third party that answers the exchange with a token pair, and
  one that answers it with status 401.
\<close>

theorem callback_exchange_witness:
  "spotify_up (token_request sample_config (Some ''AQBcode'')) =
     Inr \<lparr>status_code = 200,
          json_body = Some (JDict [(''access_token'', JStr ''BQDtoken''),
                                   (''token_type'', JStr ''Bearer''),
                                   (''expires_in'', JInt 3600),
                                   (''refresh_token'', JStr ''AQDrefresh'')])\<rparr>
   \<and> callback sample_config spotify_up (Some ''AQBcode'') fresh_world =
       (Inr (Response
               (Json (JDict [(''access_token'', JStr ''BQDtoken''),
                             (''refresh_token'', JStr ''AQDrefresh''),
                             (''expires_in'', JInt 3600)]))
               200),
        fresh_world\<lparr>spotify_tokens :=
            [(''access_token'', JStr ''BQDtoken''), (''refresh_token'', JStr ''AQDrefresh''),
             (''expires_in'', JInt 3600)]\<rparr>,
        [Http (token_request sample_config (Some ''AQBcode''))])
   \<and> spotify_denies (token_request sample_config None) =
       Inr \<lparr>status_code = 401,
            json_body = Some (JDict [(''error'', JDict [(''status'', JInt 401),
                                       (''message'', JStr ''The access token expired'')])])\<rparr>
   \<and> callback sample_config spotify_denies None signed_in_world =
       (Inr (Response (Json (JDict [(''error'', JStr ''Error al obtener el token de acceso.'')])) 400),
        signed_in_world, [Http (token_request sample_config None)])"
proof -
  have up: "spotify_up (token_request sample_config (Some ''AQBcode'')) =
     Inr \<lparr>status_code = 200,
          json_body = Some (JDict [(''access_token'', JStr ''BQDtoken''),
                                   (''token_type'', JStr ''Bearer''),
                                   (''expires_in'', JInt 3600),
                                   (''refresh_token'', JStr ''AQDrefresh'')])\<rparr>"
    by (simp add: spotify_up_def token_request_def)
  have denied: "spotify_denies (token_request sample_config None) =
       Inr \<lparr>status_code = 401,
            json_body = Some (JDict [(''error'', JDict [(''status'', JInt 401),
                                       (''message'', JStr ''The access token expired'')])])\<rparr>"
    by (simp add: spotify_denies_def)
  from up denied
    callback_exchange [where http = spotify_up and cfg = sample_config
       and code = "Some ''AQBcode''" and w = fresh_world
       and resp = "\<lparr>status_code = 200,
          json_body = Some (JDict [(''access_token'', JStr ''BQDtoken''),
                                   (''token_type'', JStr ''Bearer''),
                                   (''expires_in'', JInt 3600),
                                   (''refresh_token'', JStr ''AQDrefresh'')])\<rparr>"
       and token_data = "JDict [(''access_token'', JStr ''BQDtoken''),
                                   (''token_type'', JStr ''Bearer''),
                                   (''expires_in'', JInt 3600),
                                   (''refresh_token'', JStr ''AQDrefresh'')]"
       and a = "JStr ''BQDtoken''" and e = "JInt 3600"]
    callback_exchange [where http = spotify_denies and cfg = sample_config
       and code = None and w = signed_in_world
       and resp = "\<lparr>status_code = 401,
            json_body = Some (JDict [(''error'', JDict [(''status'', JInt 401),
                                       (''message'', JStr ''The access token expired'')])])\<rparr>"]
  show ?thesis by (simp add: field_def)
qed

subsection \<open>C5: reshaped responses\<close>

text \<open>
  Claim C5. Let the third party answer with status 200 and a JSON body whose list of
  items is \<open>items\<close> (under \<open>tracks.items\<close> for a search, under \<open>items\<close> for the
  top items), every item having the fields that are read. Then \<open>get_track_info\<close>
  returns a list, and \<open>get_top_tracks\<close> and \<open>get_top_artists\<close> a dictionary
  holding a list under \<open>top_tracks\<close> and \<open>top_artists\<close>, that has as many entries
  as \<open>items\<close> and, at every position, the simplified entry of the item at that
  position: five fields for a search, three for a top track, two for a top artist.
\<close>

theorem third_party_json_reshaped:
  assumes "status_code resp = 200" and "json_body resp = Some body"
  shows "(http (search_request tok track artist) = Inr resp
            \<and> field ''tracks'' body = Some t \<and> field ''items'' t = Some (JList items)
            \<and> (\<forall>item\<in>set items. simplified_track_info item \<noteq> None) \<longrightarrow>
          (\<exists>out. get_track_info http tok track artist =
                   (Inr (Json (JList out)), [Http (search_request tok track artist)])
             \<and> length out = length items
             \<and> (\<forall>i<length items. simplified_track_info (items ! i) = Some (out ! i))))
       \<and> (http (top_request ''https://api.spotify.com/v1/me/top/tracks'' tok limit time_range) = Inr resp
            \<and> field ''items'' body = Some (JList items)
            \<and> (\<forall>item\<in>set items. simplified_top_track item \<noteq> None) \<longrightarrow>
          (\<exists>out. get_top_tracks http tok limit time_range =
                   (Inr (Json (JDict [(''top_tracks'', JList out)])),
                    [Http (top_request ''https://api.spotify.com/v1/me/top/tracks'' tok limit time_range)])
             \<and> length out = length items
             \<and> (\<forall>i<length items. simplified_top_track (items ! i) = Some (out ! i))))
       \<and> (http (top_request ''https://api.spotify.com/v1/me/top/artists'' tok limit time_range) = Inr resp
            \<and> field ''items'' body = Some (JList items)
            \<and> (\<forall>item\<in>set items. simplified_artist item \<noteq> None) \<longrightarrow>
          (\<exists>out. get_top_artists http tok limit time_range =
                   (Inr (Json (JDict [(''top_artists'', JList out)])),
                    [Http (top_request ''https://api.spotify.com/v1/me/top/artists'' tok limit time_range)])
             \<and> length out = length items
             \<and> (\<forall>i<length items. simplified_artist (items ! i) = Some (out ! i))))"
proof (intro conjI impI)
  assume "http (search_request tok track artist) = Inr resp
            \<and> field ''tracks'' body = Some t \<and> field ''items'' t = Some (JList items)
            \<and> (\<forall>item\<in>set items. simplified_track_info item \<noteq> None)"
  then show "\<exists>out. get_track_info http tok track artist =
                   (Inr (Json (JList out)), [Http (search_request tok track artist)])
             \<and> length out = length items
             \<and> (\<forall>i<length items. simplified_track_info (items ! i) = Some (out ! i))"
    using get_track_info_reshape [OF _ assms, of http tok track artist t items] by simp
next
  assume "http (top_request ''https://api.spotify.com/v1/me/top/tracks'' tok limit time_range) = Inr resp
            \<and> field ''items'' body = Some (JList items)
            \<and> (\<forall>item\<in>set items. simplified_top_track item \<noteq> None)"
  then show "\<exists>out. get_top_tracks http tok limit time_range =
                   (Inr (Json (JDict [(''top_tracks'', JList out)])),
                    [Http (top_request ''https://api.spotify.com/v1/me/top/tracks'' tok limit time_range)])
             \<and> length out = length items
             \<and> (\<forall>i<length items. simplified_top_track (items ! i) = Some (out ! i))"
    using get_top_tracks_reshape [OF _ assms, of http tok limit time_range items] by simp
next
  assume "http (top_request ''https://api.spotify.com/v1/me/top/artists'' tok limit time_range) = Inr resp
            \<and> field ''items'' body = Some (JList items)
            \<and> (\<forall>item\<in>set items. simplified_artist item \<noteq> None)"
  then show "\<exists>out. get_top_artists http tok limit time_range =
                   (Inr (Json (JDict [(''top_artists'', JList out)])),
                    [Http (top_request ''https://api.spotify.com/v1/me/top/artists'' tok limit time_range)])
             \<and> length out = length items
             \<and> (\<forall>i<length items. simplified_artist (items ! i) = Some (out ! i))"
    using get_top_artists_reshape [OF _ assms, of http tok limit time_range items] by simp
qed

text \<open>
  Claim C5, instances: the three requests, answered with one track or one artist.
\<close>

theorem third_party_json_reshaped_witness:
  "(\<exists>out. get_track_info spotify_up (Json (JStr ''BQDtoken'')) ''Yellow'' ''Coldplay'' =
            (Inr (Json (JList out)),
             [Http (search_request (Json (JStr ''BQDtoken'')) ''Yellow'' ''Coldplay'')])
      \<and> length out = length [sample_track]
      \<and> (\<forall>i<length [sample_track]. simplified_track_info ([sample_track] ! i) = Some (out ! i)))
   \<and> (\<exists>out. get_top_tracks spotify_up (Json (JStr ''BQDtoken'')) 10 ''medium_term'' =
            (Inr (Json (JDict [(''top_tracks'', JList out)])),
             [Http (top_request ''https://api.spotify.com/v1/me/top/tracks''
                      (Json (JStr ''BQDtoken'')) 10 ''medium_term'')])
      \<and> length out = length [sample_track]
      \<and> (\<forall>i<length [sample_track]. simplified_top_track ([sample_track] ! i) = Some (out ! i)))
   \<and> (\<exists>out. get_top_artists spotify_up (Json (JStr ''BQDtoken'')) 10 ''medium_term'' =
            (Inr (Json (JDict [(''top_artists'', JList out)])),
             [Http (top_request ''https://api.spotify.com/v1/me/top/artists''
                      (Json (JStr ''BQDtoken'')) 10 ''medium_term'')])
      \<and> length out = length [sample_artist]
      \<and> (\<forall>i<length [sample_artist]. simplified_artist ([sample_artist] ! i) = Some (out ! i)))"
proof -
  have search: "spotify_up (search_request (Json (JStr ''BQDtoken'')) ''Yellow'' ''Coldplay'') =
      Inr \<lparr>status_code = 200,
           json_body = Some (JDict [(''tracks'', JDict [(''items'', JList [sample_track])])])\<rparr>"
    by (simp add: spotify_up_def search_request_def)
  have tracks: "spotify_up (top_request ''https://api.spotify.com/v1/me/top/tracks''
                      (Json (JStr ''BQDtoken'')) 10 ''medium_term'') =
      Inr \<lparr>status_code = 200, json_body = Some (JDict [(''items'', JList [sample_track])])\<rparr>"
    by (simp add: spotify_up_def top_request_def)
  have artists: "spotify_up (top_request ''https://api.spotify.com/v1/me/top/artists''
                      (Json (JStr ''BQDtoken'')) 10 ''medium_term'') =
      Inr \<lparr>status_code = 200, json_body = Some (JDict [(''items'', JList [sample_artist])])\<rparr>"
    by (simp add: spotify_up_def top_request_def)
  have a: "\<exists>out. get_track_info spotify_up (Json (JStr ''BQDtoken'')) ''Yellow'' ''Coldplay'' =
            (Inr (Json (JList out)),
             [Http (search_request (Json (JStr ''BQDtoken'')) ''Yellow'' ''Coldplay'')])
      \<and> length out = length [sample_track]
      \<and> (\<forall>i<length [sample_track]. simplified_track_info ([sample_track] ! i) = Some (out ! i))"
    using search sample_simplified(1)
      third_party_json_reshaped
        [where resp = "\<lparr>status_code = 200,
             json_body = Some (JDict [(''tracks'', JDict [(''items'', JList [sample_track])])])\<rparr>"
           and body = "JDict [(''tracks'', JDict [(''items'', JList [sample_track])])]"
           and http = spotify_up and tok = "Json (JStr ''BQDtoken'')"
           and track = "''Yellow''" and artist = "''Coldplay''"
           and t = "JDict [(''items'', JList [sample_track])]" and items = "[sample_track]"]
    by (simp add: field_def)
  have b: "\<exists>out. get_top_tracks spotify_up (Json (JStr ''BQDtoken'')) 10 ''medium_term'' =
            (Inr (Json (JDict [(''top_tracks'', JList out)])),
             [Http (top_request ''https://api.spotify.com/v1/me/top/tracks''
                      (Json (JStr ''BQDtoken'')) 10 ''medium_term'')])
      \<and> length out = length [sample_track]
      \<and> (\<forall>i<length [sample_track]. simplified_top_track ([sample_track] ! i) = Some (out ! i))"
    using tracks sample_simplified(2)
      third_party_json_reshaped
        [where resp = "\<lparr>status_code = 200, json_body = Some (JDict [(''items'', JList [sample_track])])\<rparr>"
           and body = "JDict [(''items'', JList [sample_track])]"
           and http = spotify_up and tok = "Json (JStr ''BQDtoken'')"
           and limit = 10 and time_range = "''medium_term''" and items = "[sample_track]"]
    by (simp add: field_def)
  have c: "\<exists>out. get_top_artists spotify_up (Json (JStr ''BQDtoken'')) 10 ''medium_term'' =
            (Inr (Json (JDict [(''top_artists'', JList out)])),
             [Http (top_request ''https://api.spotify.com/v1/me/top/artists''
                      (Json (JStr ''BQDtoken'')) 10 ''medium_term'')])
      \<and> length out = length [sample_artist]
      \<and> (\<forall>i<length [sample_artist]. simplified_artist ([sample_artist] ! i) = Some (out ! i))"
    using artists sample_simplified(3)
      third_party_json_reshaped
        [where resp = "\<lparr>status_code = 200, json_body = Some (JDict [(''items'', JList [sample_artist])])\<rparr>"
           and body = "JDict [(''items'', JList [sample_artist])]"
           and http = spotify_up and tok = "Json (JStr ''BQDtoken'')"
           and limit = 10 and time_range = "''medium_term''" and items = "[sample_artist]"]
    by (simp add: field_def)
  from a b c show ?thesis by (intro conjI)
qed

subsection \<open>C6: the steps of get_spotify_token\<close>

text \<open>
  Claim C6. When the token store holds an access token, \<open>get_spotify_token\<close> returns
  it at once: no effect, no change of state, whatever the surroundings. Whenever a call
  ends, its effects depend on the store found at entry. Found empty: one browser
  opening, on the authorization URL that \<open>spotify_auth\<close> builds, followed only by the
  one-second sleeps of the polling. Found populated: no effect at all.
\<close>

theorem get_spotify_token_steps:
  "(map_of (spotify_tokens w) ''access_token'' = Some t \<longrightarrow>
      get_spotify_token fuel cfg ev w = Some (Inr (Json t), w, []))
   \<and> (get_spotify_token fuel cfg ev w = Some (r, w', es) \<longrightarrow>
        (if spotify_tokens w = [] then
           \<exists>n. es = BrowserOpen (Some (''https://accounts.spotify.com/authorize?response_type=code&client_id='' @
                  fstr (SPOTIFY_CLIENT_ID cfg) @ ''&redirect_uri='' @ SPOTIFY_REDIRECT_URI cfg @
                  ''&scope=user-top-read'')) # replicate n (Sleep 1)
         else es = [] \<and> w' = w \<and> r = read_access_token w))"
proof (intro conjI impI)
  assume "map_of (spotify_tokens w) ''access_token'' = Some t"
  then show "get_spotify_token fuel cfg ev w = Some (Inr (Json t), w, [])"
    by (auto simp: get_spotify_token_def read_access_token_def)
next
  assume run: "get_spotify_token fuel cfg ev w = Some (r, w', es)"
  show "if spotify_tokens w = [] then
           \<exists>n. es = BrowserOpen (Some (''https://accounts.spotify.com/authorize?response_type=code&client_id='' @
                  fstr (SPOTIFY_CLIENT_ID cfg) @ ''&redirect_uri='' @ SPOTIFY_REDIRECT_URI cfg @
                  ''&scope=user-top-read'')) # replicate n (Sleep 1)
         else es = [] \<and> w' = w \<and> r = read_access_token w"
  proof (cases "spotify_tokens w = []")
    case False
    with run show ?thesis by (auto simp: get_spotify_token_def)
  next
    case True
    let ?w0 = "deliver cfg (arrivals ev Opening) w"
    from run True obtain r1 es1 where
      loop: "wait_loop fuel cfg ev (clock ev 0) 0 ?w0 = Some (r1, w', es1)"
      and es: "es = BrowserOpen (map_of (spotify_auth cfg) ''auth_url'') # es1"
      by (auto simp: get_spotify_token_def Let_def split: option.splits)
    from wait_loop_result [OF loop] obtain n where n: "es1 = replicate n (Sleep 1)"
      by (elim exE conjE)
    have "es = BrowserOpen (map_of (spotify_auth cfg) ''auth_url'') # replicate n (Sleep 1)"
      using es n by simp
    then have "\<exists>n. es = BrowserOpen (map_of (spotify_auth cfg) ''auth_url'') # replicate n (Sleep 1)"
      by (rule exI)
    then show ?thesis unfolding auth_url_lookup using True by simp
  qed
qed

text \<open>
  Claim C6, instances: a populated store, and an empty store filled by a callback
  during the second sleep.
\<close>

theorem get_spotify_token_steps_witness:
  "map_of (spotify_tokens signed_in_world) ''access_token'' = Some (JStr ''BQDtoken'')
   \<and> get_spotify_token 0 sample_config login_env signed_in_world =
       Some (Inr (Json (JStr ''BQDtoken'')), signed_in_world, [])
   \<and> spotify_tokens fresh_world = []
   \<and> get_spotify_token 3 sample_config login_env fresh_world =
       Some (Inr (Json (JStr ''BQDtoken'')), signed_in_world,
             [BrowserOpen (map_of (spotify_auth sample_config) ''auth_url''), Sleep 1, Sleep 1])
   \<and> (\<exists>n. [BrowserOpen (map_of (spotify_auth sample_config) ''auth_url''), Sleep 1, Sleep 1] =
          BrowserOpen (Some (''https://accounts.spotify.com/authorize?response_type=code&client_id='' @
                  fstr (SPOTIFY_CLIENT_ID sample_config) @ ''&redirect_uri='' @
                  SPOTIFY_REDIRECT_URI sample_config @ ''&scope=user-top-read''))
          # replicate n (Sleep 1))"
proof -
  have populated: "map_of (spotify_tokens signed_in_world) ''access_token'' = Some (JStr ''BQDtoken'')"
    by (simp add: signed_in_world_def sample_tokens_def)
  have empty: "spotify_tokens fresh_world = []" by (simp add: fresh_world_def)
  from populated empty sample_login_run
    get_spotify_token_steps [where w = signed_in_world and t = "JStr ''BQDtoken''" and fuel = 0
      and cfg = sample_config and ev = login_env and r = "Inr (Json (JStr ''BQDtoken''))"
      and w' = signed_in_world and es = "[]"]
    get_spotify_token_steps [where w = fresh_world and fuel = 3
      and cfg = sample_config and ev = login_env and r = "Inr (Json (JStr ''BQDtoken''))"
      and w' = signed_in_world
      and es = "[BrowserOpen (map_of (spotify_auth sample_config) ''auth_url''), Sleep 1, Sleep 1]"]
  show ?thesis by simp
qed

subsection \<open>C7: the authorization URL\<close>


subsection \<open>C8: the token store and failed exchanges\<close>

text \<open>
  Claim C8. When the third party answers the token exchange with a status other than
  200, the callback leaves the state as it was, \<open>spotify_tokens\<close> included. And
  when the callback has changed \<open>spotify_tokens\<close>, the exchange was answered with
  status 200.
\<close>

theorem callback_store_atomic:
  "(http (token_request cfg code) = Inr resp \<and> status_code resp \<noteq> 200 \<longrightarrow>
      fst (snd (callback cfg http code w)) = w)
   \<and> (spotify_tokens (fst (snd (callback cfg http code w))) \<noteq> spotify_tokens w \<longrightarrow>
      (\<exists>resp. http (token_request cfg code) = Inr resp \<and> status_code resp = 200))"
proof (cases "http (token_request cfg code)")
  case (Inl e)
  then have "fst (snd (callback cfg http code w)) = w"
    by (simp add: callback_def)
  with Inl show ?thesis by simp
next
  case (Inr answer)
  show ?thesis
  proof (cases "status_code answer = 200")
    case True
    with Inr show ?thesis by auto
  next
    case False
    with Inr have "fst (snd (callback cfg http code w)) = w"
      by (simp add: callback_def)
    with Inr False show ?thesis by simp
  qed
qed

text \<open>
  Claim C8, instances: an exchange answered with status 401 on a populated store, and
  one answered with status 200 on the empty store.
\<close>

theorem callback_store_atomic_witness:
  "spotify_denies (token_request sample_config (Some ''AQBcode'')) =
       Inr \<lparr>status_code = 401,
            json_body = Some (JDict [(''error'', JDict [(''status'', JInt 401),
                                       (''message'', JStr ''The access token expired'')])])\<rparr>
   \<and> fst (snd (callback sample_config spotify_denies (Some ''AQBcode'') signed_in_world)) = signed_in_world
   \<and> spotify_tokens (fst (snd (callback sample_config spotify_up (Some ''AQBcode'') fresh_world)))
       \<noteq> spotify_tokens fresh_world
   \<and> (\<exists>resp. spotify_up (token_request sample_config (Some ''AQBcode'')) = Inr resp
          \<and> status_code resp = 200)"
proof -
  have denied: "spotify_denies (token_request sample_config (Some ''AQBcode'')) =
       Inr \<lparr>status_code = 401,
            json_body = Some (JDict [(''error'', JDict [(''status'', JInt 401),
                                       (''message'', JStr ''The access token expired'')])])\<rparr>"
    by (simp add: spotify_denies_def)
  have changed: "spotify_tokens (fst (snd (callback sample_config spotify_up (Some ''AQBcode'') fresh_world)))
       \<noteq> spotify_tokens fresh_world"
    by (simp add: callback_def token_request_def spotify_up_def response_json_def token_entry_def
          fresh_world_def)
  from denied changed
    callback_store_atomic [where http = spotify_denies and cfg = sample_config
      and code = "Some ''AQBcode''" and w = signed_in_world
      and resp = "\<lparr>status_code = 401,
            json_body = Some (JDict [(''error'', JDict [(''status'', JInt 401),
                                       (''message'', JStr ''The access token expired'')])])\<rparr>"]
    callback_store_atomic [where http = spotify_up and cfg = sample_config
      and code = "Some ''AQBcode''" and w = fresh_world]
  show ?thesis by simp
qed

subsection \<open>C9: what add_preferences leaves alone\<close>

text \<open>
  Claim C9. After every call of \<open>add_preferences\<close> that returns its response, the
  targeted user has the name and the email it had before, and every other key of the
  table holds what it held before.
\<close>

theorem add_preferences_frame:
  assumes "users w uid = Some u"
    and "add_preferences fuel cfg ev uid track artist w = Some (Inr resp, w', es)"
  shows "(\<exists>u'. users w' uid = Some u' \<and> name u' = name u \<and> email u' = email u)
       \<and> (\<forall>other. other \<noteq> uid \<longrightarrow> users w' other = users w other)"
  using add_preferences_outcome [OF assms] by auto

text \<open>
  Claim C9, instance: a call for user 7 that returns its response; user 8 is the other
  row.
\<close>

theorem add_preferences_frame_witness:
  "users signed_in_world 7 = Some \<lparr>name = ''Ana'', email = ''ana@example.org'', preferences = JList []\<rparr>
   \<and> (\<exists>u'. users (signed_in_world\<lparr>users := (users signed_in_world)(7 \<mapsto>
              \<lparr>name = ''Ana'', email = ''ana@example.org'',
               preferences = JList [JDict [(''track_info'', JList [yellow])]]\<rparr>)\<rparr>) 7 = Some u'
          \<and> name u' = ''Ana'' \<and> email u' = ''ana@example.org'')
   \<and> users (signed_in_world\<lparr>users := (users signed_in_world)(7 \<mapsto>
              \<lparr>name = ''Ana'', email = ''ana@example.org'',
               preferences = JList [JDict [(''track_info'', JList [yellow])]]\<rparr>)\<rparr>) 8
       = users signed_in_world 8"
  using add_preferences_frame [OF sample_user_7 sample_add_up [of 0]]
  by (simp add: sample_user_7)

subsection \<open>C10: null preferences\<close>

text \<open>
  Claim C10. A user created without a value for \<open>preferences\<close> has the empty list.
  For a user whose \<open>preferences\<close> is \<open>None\<close>, no call of \<open>add_preferences\<close>
  returns the success response: every call that ends has raised and left the table as
  it was, and when the token and the track lookup were obtained, what it raised is the
  AttributeError of \<open>append\<close>.
\<close>

theorem add_preferences_null_preferences:
  "preferences (User_init n e None) = JList []
   \<and> (users w uid = Some u \<and> preferences u = JNull
        \<and> add_preferences fuel cfg ev uid track artist w = Some (r, w', es) \<longrightarrow>
      isl r \<and> users w' = users w
      \<and> (\<forall>tok w1 es1 v es2.
            get_spotify_token fuel cfg ev w = Some (Inr tok, w1, es1)
          \<and> get_track_info (requests ev) tok track artist = (Inr v, es2)
          \<longrightarrow> r = Inl AttributeError))"
proof (rule conjI)
  show "preferences (User_init n e None) = JList []" by (simp add: User_init_def)
next
  show "users w uid = Some u \<and> preferences u = JNull
        \<and> add_preferences fuel cfg ev uid track artist w = Some (r, w', es) \<longrightarrow>
      isl r \<and> users w' = users w
      \<and> (\<forall>tok w1 es1 v es2.
            get_spotify_token fuel cfg ev w = Some (Inr tok, w1, es1)
          \<and> get_track_info (requests ev) tok track artist = (Inr v, es2)
          \<longrightarrow> r = Inl AttributeError)"
  proof (rule impI)
    assume a: "users w uid = Some u \<and> preferences u = JNull
          \<and> add_preferences fuel cfg ev uid track artist w = Some (r, w', es)"
    then have user: "users w uid = Some u" and null: "preferences u = JNull"
      and run: "add_preferences fuel cfg ev uid track artist w = Some (r, w', es)" by simp_all
    from add_preferences_outcome [OF user run] null
    have fails: "isl r \<and> users w' = users w" by auto
    have "\<forall>tok w1 es1 v es2.
              get_spotify_token fuel cfg ev w = Some (Inr tok, w1, es1)
            \<and> get_track_info (requests ev) tok track artist = (Inr v, es2)
            \<longrightarrow> r = Inl AttributeError"
    proof (intro allI impI)
      fix tok w1 es1 v es2
      assume "get_spotify_token fuel cfg ev w = Some (Inr tok, w1, es1)
            \<and> get_track_info (requests ev) tok track artist = (Inr v, es2)"
      with run user null show "r = Inl AttributeError"
        by (simp add: add_preferences_def)
    qed
    with fails show "isl r \<and> users w' = users w
        \<and> (\<forall>tok w1 es1 v es2.
              get_spotify_token fuel cfg ev w = Some (Inr tok, w1, es1)
            \<and> get_track_info (requests ev) tok track artist = (Inr v, es2)
            \<longrightarrow> r = Inl AttributeError)" by simp
  qed
qed

text \<open>
  Claim C10, instance: user 8, whose \<open>preferences\<close> is \<open>None\<close>, with a populated
  store and a third party that answers the search.
\<close>

theorem add_preferences_null_preferences_witness:
  "users signed_in_world 8 = Some \<lparr>name = ''Luis'', email = ''luis@example.org'', preferences = JNull\<rparr>
   \<and> add_preferences 0 sample_config (quiet_env spotify_up) 8 ''Yellow'' ''Coldplay'' signed_in_world =
       Some (Inl AttributeError, signed_in_world,
             [Http (search_request (Json (JStr ''BQDtoken'')) ''Yellow'' ''Coldplay'')])
   \<and> isl (Inl AttributeError :: py_error + pyval)
   \<and> preferences (User_init ''Ana'' ''ana@example.org'' None) = JList []"
  using add_preferences_null_preferences
          [where w = signed_in_world and uid = 8 and fuel = 0 and cfg = sample_config
             and ev = "quiet_env spotify_up" and track = "''Yellow''" and artist = "''Coldplay''"
             and u = "\<lparr>name = ''Luis'', email = ''luis@example.org'', preferences = JNull\<rparr>"
             and r = "Inl AttributeError" and w' = signed_in_world
             and es = "[Http (search_request (Json (JStr ''BQDtoken'')) ''Yellow'' ''Coldplay'')]"
             and n = "''Ana''" and e = "''ana@example.org''"]
  by (simp add: sample_user_8 sample_add_null)

end
